theory Spec2Isabelle
  imports Complex_Main "HOL-Library.Word"
begin

unbundle bit_operations_syntax

section \<open>Events (gui.h)\<close>

text \<open>
  \<^verbatim>\<open>struct KeyboardEvent\<close>. The anonymous union of \<^verbatim>\<open>char32_t chr\<close> and \<^verbatim>\<open>int num\<close> is one
  32-bit cell, \<open>chr\<close>; \<open>num\<close> reads the same cell as a signed integer. The fields carry the
  prefix \<open>ke_\<close> where \<^verbatim>\<open>MouseEvent\<close> has a field of the same name.
\<close>

datatype KeyboardEvent_Type = K_PRESS | K_RELEASE

datatype Key = CHARACTER | FUNCTION

record KeyboardEvent =
  ke_type :: KeyboardEvent_Type
  ke_key :: Key
  chr :: "32 word"
  ke_shiftDown :: bool
  ke_controlDown :: bool

definition num :: "KeyboardEvent \<Rightarrow> int" where
  "num e = sint (chr e)"

text \<open>\<^verbatim>\<open>KeyboardEvent event = {}\<close>: every field zero.\<close>

definition KeyboardEvent_zero :: KeyboardEvent where
  "KeyboardEvent_zero =
     \<lparr>ke_type = K_PRESS, ke_key = CHARACTER, chr = 0,
      ke_shiftDown = False, ke_controlDown = False\<rparr>"

datatype MouseEvent_Type = MOTION | PRESS | DBL_PRESS | RELEASE | SCROLL_VERT | LEAVE

datatype Button = NONE | LEFT | MIDDLE | RIGHT

text \<open>
  \<^verbatim>\<open>class MouseEvent\<close>. The coordinates are doubles in the source; every coordinate the two
  adapters produce is passed through unchanged, and they are held here as rationals.
\<close>

record MouseEvent =
  me_type :: MouseEvent_Type
  me_x :: rat
  me_y :: rat
  button :: Button
  me_shiftDown :: bool
  me_controlDown :: bool
  scrollDelta :: int

definition MouseEvent_zero :: MouseEvent where
  "MouseEvent_zero =
     \<lparr>me_type = MOTION, me_x = 0, me_y = 0, button = NONE,
      me_shiftDown = False, me_controlDown = False, scrollDelta = 0\<rparr>"

text \<open>
  The callback slots of \<^verbatim>\<open>class Window\<close> that the functions below reach. A
  \<^verbatim>\<open>std::function\<close> slot may be empty (\<open>None\<close>). \<open>onScrollbarAdjusted\<close> returns nothing, so
  the slot only records whether a callback is registered; its calls appear in the trace.
\<close>

record Window =
  onMouseEvent :: "(MouseEvent \<Rightarrow> bool) option"
  onKeyboardEvent :: "(KeyboardEvent \<Rightarrow> bool) option"
  onScrollbarAdjusted :: bool

text \<open>
  What a handler does besides returning: the callbacks it invokes and the host calls it
  makes that hand the event on, in order.
\<close>

datatype effect =
    Call_onKeyboardEvent KeyboardEvent
  | Call_onMouseEvent MouseEvent
  | Call_onScrollbarAdjusted rat
  | Call_SS_GW_KeyboardEvent KeyboardEvent
  | SetForegroundWindow_hParent
  | SendMessage_hParent
  | SendMessage_hWindowUnderMouse
  | TrackMouseEvent_LEAVE

section \<open>Win32: keyboard messages (guiwin.cpp, WndProc)\<close>

text \<open>
  What \<^verbatim>\<open>WndProc\<close> returns: a number, or whatever \<^verbatim>\<open>DefWindowProc\<close> returns after the
  host's default handling of the message.
\<close>

datatype LRESULT = LRESULT int | DefWindowProc

datatype KeyMsg = WM_KEYDOWN | WM_KEYUP

definition VK_SHIFT :: nat where "VK_SHIFT = 0x10"
definition VK_CONTROL :: nat where "VK_CONTROL = 0x11"
definition VK_MENU :: nat where "VK_MENU = 0x12"
definition VK_DELETE :: nat where "VK_DELETE = 0x2E"
definition VK_F1 :: nat where "VK_F1 = 0x70"
definition VK_F12 :: nat where "VK_F12 = 0x7B"

text \<open>The C library's \<^verbatim>\<open>tolower\<close> in the "C" locale, on the values it is given here.\<close>

definition tolower :: "32 word \<Rightarrow> 32 word" where
  "tolower c = (if 0x41 \<le> c \<and> c \<le> 0x5A then c + 0x20 else c)"

text \<open>
  The decoding part of \<^verbatim>\<open>case WM_KEYDOWN: case WM_KEYUP:\<close>, up to the
  \<^verbatim>\<open>if(window->onKeyboardEvent)\<close>. \<open>MapVirtualKeyW\<close> is the host's
  \<^verbatim>\<open>MapVirtualKeyW(_, MAPVK_VK_TO_CHAR)\<close> and \<open>GetKeyState\<close> the host's key state (a SHORT),
  both taken as parameters. \<open>None\<close> is the \<^verbatim>\<open>break\<close> at "Non-mappable key".
\<close>

definition WndProc_KEY_event ::
  "(nat \<Rightarrow> 32 word) \<Rightarrow> (nat \<Rightarrow> 16 word) \<Rightarrow> KeyMsg \<Rightarrow> nat \<Rightarrow> KeyboardEvent option" where
  "WndProc_KEY_event MapVirtualKeyW GetKeyState msg wParam =
     (let event = KeyboardEvent_zero
            \<lparr>ke_type := (case msg of WM_KEYDOWN \<Rightarrow> K_PRESS | WM_KEYUP \<Rightarrow> K_RELEASE)\<rparr>;
          event = (if GetKeyState VK_SHIFT AND 0x8000 \<noteq> 0
                   then event\<lparr>ke_shiftDown := True\<rparr> else event);
          event = (if GetKeyState VK_CONTROL AND 0x8000 \<noteq> 0
                   then event\<lparr>ke_controlDown := True\<rparr> else event)
      in if VK_F1 \<le> wParam \<and> wParam \<le> VK_F12
         then Some (event\<lparr>ke_key := FUNCTION, chr := of_nat (wParam - VK_F1 + 1)\<rparr>)
         else
           (let event = event\<lparr>ke_key := CHARACTER, chr := tolower (MapVirtualKeyW wParam)\<rparr>
            in if chr event = 0
               then (if wParam = VK_DELETE then Some (event\<lparr>chr := 0x7F\<rparr>) else None)
               else if chr event = 0x2E \<and> ke_shiftDown event
               then Some (event\<lparr>chr := 0x3E, ke_shiftDown := False\<rparr>)
               else Some event))"

text \<open>
  The whole case. \<open>hParent\<close> says whether \<^verbatim>\<open>GetParent(h)\<close> is not NULL. The value the
  callback returns is not used; the case ends in \<^verbatim>\<open>break\<close>, and \<^verbatim>\<open>WndProc\<close> returns 1.
\<close>

definition WndProc_KEY ::
  "(nat \<Rightarrow> 32 word) \<Rightarrow> (nat \<Rightarrow> 16 word) \<Rightarrow> 'a Window_scheme \<Rightarrow> bool \<Rightarrow> KeyMsg \<Rightarrow> nat
     \<Rightarrow> LRESULT \<times> effect list" where
  "WndProc_KEY MapVirtualKeyW GetKeyState window hParent msg wParam =
     (case WndProc_KEY_event MapVirtualKeyW GetKeyState msg wParam of
        None \<Rightarrow> (LRESULT 1, [])
      | Some event \<Rightarrow>
          (case onKeyboardEvent window of
             Some cb \<Rightarrow> (LRESULT 1, [Call_onKeyboardEvent event])
           | None \<Rightarrow>
               if hParent
               then (LRESULT 1, [SetForegroundWindow_hParent, SendMessage_hParent])
               else (LRESULT 1, [])))"

text \<open>\<^verbatim>\<open>case WM_SYSKEYDOWN:\<close>, the message the host sends for a key pressed with Alt held.\<close>

definition WndProc_SYSKEYDOWN :: "bool \<Rightarrow> LRESULT \<times> effect list" where
  "WndProc_SYSKEYDOWN hParent =
     (if hParent then (LRESULT 1, [SetForegroundWindow_hParent]) else (DefWindowProc, []))"

section \<open>GTK: keyboard events (guigtk.cpp, GtkGLWidget)\<close>

record GdkEventKey =
  key_state :: "32 word"
  keyval :: "32 word"

definition GDK_SHIFT_MASK :: "32 word" where "GDK_SHIFT_MASK = 1"
definition GDK_CONTROL_MASK :: "32 word" where "GDK_CONTROL_MASK = 4"
definition GDK_MOD1_MASK :: "32 word" where "GDK_MOD1_MASK = 8"
definition GDK_BUTTON1_MASK :: "32 word" where "GDK_BUTTON1_MASK = 0x100"
definition GDK_BUTTON2_MASK :: "32 word" where "GDK_BUTTON2_MASK = 0x200"
definition GDK_BUTTON3_MASK :: "32 word" where "GDK_BUTTON3_MASK = 0x400"
definition GDK_KEY_F1 :: "32 word" where "GDK_KEY_F1 = 0xFFBE"
definition GDK_KEY_F12 :: "32 word" where "GDK_KEY_F12 = 0xFFC9"

text \<open>
  The decoding part of \<^verbatim>\<open>process_key_event\<close>, up to the call of the handler. The library
  functions \<^verbatim>\<open>gdk_keyval_to_lower\<close> and \<^verbatim>\<open>gdk_keyval_to_unicode\<close> are parameters. \<open>None\<close> is
  either \<^verbatim>\<open>return false\<close> before the handler.
\<close>

definition process_key_event_event ::
  "(32 word \<Rightarrow> 32 word) \<Rightarrow> (32 word \<Rightarrow> 32 word) \<Rightarrow> KeyboardEvent_Type \<Rightarrow> GdkEventKey
     \<Rightarrow> KeyboardEvent option" where
  "process_key_event_event gdk_keyval_to_lower gdk_keyval_to_unicode type gdk_event =
     (let event = KeyboardEvent_zero\<lparr>ke_type := type\<rparr>
      in if key_state gdk_event AND NOT (GDK_SHIFT_MASK OR GDK_CONTROL_MASK) \<noteq> 0
         then None
         else
           (let event = event
                  \<lparr>ke_shiftDown := key_state gdk_event AND GDK_SHIFT_MASK \<noteq> 0,
                   ke_controlDown := key_state gdk_event AND GDK_CONTROL_MASK \<noteq> 0\<rparr>;
                c = gdk_keyval_to_unicode (gdk_keyval_to_lower (keyval gdk_event))
            in if c \<noteq> 0
               then Some (event\<lparr>ke_key := CHARACTER, chr := c\<rparr>)
               else if GDK_KEY_F1 \<le> keyval gdk_event \<and> keyval gdk_event \<le> GDK_KEY_F12
               then Some (event\<lparr>ke_key := FUNCTION, chr := keyval gdk_event - GDK_KEY_F1 + 1\<rparr>)
               else None))"

text \<open>
  \<^verbatim>\<open>process_key_event\<close>. \<open>receiver\<close> is the widget's \<^verbatim>\<open>_receiver\<close>, the window with its
  callback slots; \<open>SS_GW_KeyboardEvent\<close> is \<^verbatim>\<open>SS.GW.KeyboardEvent\<close>, the function of the
  application that the source calls with the event, taken as a parameter.
\<close>

definition process_key_event ::
  "(32 word \<Rightarrow> 32 word) \<Rightarrow> (32 word \<Rightarrow> 32 word) \<Rightarrow> (KeyboardEvent \<Rightarrow> bool) \<Rightarrow> 'a Window_scheme
     \<Rightarrow> KeyboardEvent_Type \<Rightarrow> GdkEventKey \<Rightarrow> bool \<times> effect list" where
  "process_key_event gdk_keyval_to_lower gdk_keyval_to_unicode SS_GW_KeyboardEvent receiver
       type gdk_event =
     (case process_key_event_event gdk_keyval_to_lower gdk_keyval_to_unicode type gdk_event of
        None \<Rightarrow> (False, [])
      | Some event \<Rightarrow>
          (if SS_GW_KeyboardEvent event
           then (True, [Call_SS_GW_KeyboardEvent event])
           else (False, [Call_SS_GW_KeyboardEvent event])))"

text \<open>
  What a GTK event handler returns: a boolean of its own, or whatever the handler of the
  base class \<^verbatim>\<open>Gtk::GLArea\<close> returns after the default handling.
\<close>

datatype gtk_result = Return bool | GLArea_default

text \<open>\<^verbatim>\<open>on_key_press_event\<close> and \<^verbatim>\<open>on_key_release_event\<close>.\<close>

definition on_key_event ::
  "(32 word \<Rightarrow> 32 word) \<Rightarrow> (32 word \<Rightarrow> 32 word) \<Rightarrow> (KeyboardEvent \<Rightarrow> bool) \<Rightarrow> 'a Window_scheme
     \<Rightarrow> KeyboardEvent_Type \<Rightarrow> GdkEventKey \<Rightarrow> gtk_result \<times> effect list" where
  "on_key_event gdk_keyval_to_lower gdk_keyval_to_unicode SS_GW_KeyboardEvent receiver
       type gdk_event =
     (case process_key_event gdk_keyval_to_lower gdk_keyval_to_unicode SS_GW_KeyboardEvent
             receiver type gdk_event of
        (True, tr) \<Rightarrow> (Return True, tr)
      | (False, tr) \<Rightarrow> (GLArea_default, tr))"

section \<open>GTK: pointer events (guigtk.cpp, GtkGLWidget)\<close>

text \<open>
  The event that \<^verbatim>\<open>process_pointer_event\<close> builds. \<open>gdk_button\<close> is the parameter
  \<^verbatim>\<open>button\<close> (0 when the caller passes none), \<open>state\<close> the modifier and held-button mask.
\<close>

definition process_pointer_event_event ::
  "MouseEvent_Type \<Rightarrow> rat \<Rightarrow> rat \<Rightarrow> 32 word \<Rightarrow> 32 word \<Rightarrow> int \<Rightarrow> MouseEvent" where
  "process_pointer_event_event type x y state gdk_button scroll_delta =
     (let event = MouseEvent_zero\<lparr>me_type := type, me_x := x, me_y := y\<rparr>;
          event = (if gdk_button = 1 \<or> state AND GDK_BUTTON1_MASK \<noteq> 0
                   then event\<lparr>button := LEFT\<rparr>
                   else if gdk_button = 2 \<or> state AND GDK_BUTTON2_MASK \<noteq> 0
                   then event\<lparr>button := MIDDLE\<rparr>
                   else if gdk_button = 3 \<or> state AND GDK_BUTTON3_MASK \<noteq> 0
                   then event\<lparr>button := RIGHT\<rparr>
                   else event);
          event = (if state AND GDK_SHIFT_MASK \<noteq> 0
                   then event\<lparr>me_shiftDown := True\<rparr> else event);
          event = (if state AND GDK_CONTROL_MASK \<noteq> 0
                   then event\<lparr>me_controlDown := True\<rparr> else event)
      in event\<lparr>scrollDelta := scroll_delta\<rparr>)"

definition process_pointer_event ::
  "'a Window_scheme \<Rightarrow> MouseEvent_Type \<Rightarrow> rat \<Rightarrow> rat \<Rightarrow> 32 word \<Rightarrow> 32 word \<Rightarrow> int
     \<Rightarrow> bool \<times> effect list" where
  "process_pointer_event receiver type x y state gdk_button scroll_delta =
     (let event = process_pointer_event_event type x y state gdk_button scroll_delta
      in case onMouseEvent receiver of
           Some cb \<Rightarrow> (cb event, [Call_onMouseEvent event])
         | None \<Rightarrow> (False, []))"

datatype GdkEventType = GDK_BUTTON_PRESS | GDK_2BUTTON_PRESS | GDK_3BUTTON_PRESS

record GdkEventButton =
  b_type :: GdkEventType
  b_x :: rat
  b_y :: rat
  b_state :: "32 word"
  b_button :: "32 word"

definition on_motion_notify_event ::
  "'a Window_scheme \<Rightarrow> rat \<Rightarrow> rat \<Rightarrow> 32 word \<Rightarrow> gtk_result \<times> effect list" where
  "on_motion_notify_event receiver x y state =
     (case process_pointer_event receiver MOTION x y state 0 0 of
        (True, tr) \<Rightarrow> (Return True, tr)
      | (False, tr) \<Rightarrow> (GLArea_default, tr))"

definition on_button_press_event ::
  "'a Window_scheme \<Rightarrow> GdkEventButton \<Rightarrow> gtk_result \<times> effect list" where
  "on_button_press_event receiver gdk_event =
     (case (case b_type gdk_event of
              GDK_BUTTON_PRESS \<Rightarrow> Some PRESS
            | GDK_2BUTTON_PRESS \<Rightarrow> Some DBL_PRESS
            | GDK_3BUTTON_PRESS \<Rightarrow> None) of
        None \<Rightarrow> (GLArea_default, [])
      | Some type \<Rightarrow>
          (case process_pointer_event receiver type (b_x gdk_event) (b_y gdk_event)
                  (b_state gdk_event) (b_button gdk_event) 0 of
             (True, tr) \<Rightarrow> (Return True, tr)
           | (False, tr) \<Rightarrow> (GLArea_default, tr)))"

definition on_button_release_event ::
  "'a Window_scheme \<Rightarrow> GdkEventButton \<Rightarrow> gtk_result \<times> effect list" where
  "on_button_release_event receiver gdk_event =
     (case process_pointer_event receiver RELEASE (b_x gdk_event) (b_y gdk_event)
             (b_state gdk_event) (b_button gdk_event) 0 of
        (True, tr) \<Rightarrow> (Return True, tr)
      | (False, tr) \<Rightarrow> (GLArea_default, tr))"

section \<open>Win32: pointer messages (guiwin.cpp, WndProc)\<close>

datatype MouseMsg =
    WM_LBUTTONDOWN | WM_MBUTTONDOWN | WM_RBUTTONDOWN
  | WM_LBUTTONDBLCLK | WM_MBUTTONDBLCLK | WM_RBUTTONDBLCLK
  | WM_LBUTTONUP | WM_MBUTTONUP | WM_RBUTTONUP
  | WM_MOUSEMOVE | WM_MOUSEWHEEL | WM_MOUSELEAVE

definition MK_LBUTTON :: "32 word" where "MK_LBUTTON = 0x01"
definition MK_RBUTTON :: "32 word" where "MK_RBUTTON = 0x02"
definition MK_SHIFT :: "32 word" where "MK_SHIFT = 0x04"
definition MK_CONTROL :: "32 word" where "MK_CONTROL = 0x08"
definition MK_MBUTTON :: "32 word" where "MK_MBUTTON = 0x10"

definition LOWORD :: "32 word \<Rightarrow> 16 word" where
  "LOWORD l = ucast l"

definition HIWORD :: "32 word \<Rightarrow> 16 word" where
  "HIWORD l = ucast (drop_bit 16 l)"

text \<open>\<^verbatim>\<open>GET_WHEEL_DELTA_WPARAM\<close>: the high word of \<open>wParam\<close>, read as a signed short.\<close>

definition GET_WHEEL_DELTA_WPARAM :: "32 word \<Rightarrow> int" where
  "GET_WHEEL_DELTA_WPARAM wParam = sint (HIWORD wParam)"

text \<open>The messages of the first group of case labels, which the click after a menu skips.\<close>

definition is_button_msg :: "MouseMsg \<Rightarrow> bool" where
  "is_button_msg msg = (msg \<noteq> WM_MOUSEMOVE \<and> msg \<noteq> WM_MOUSEWHEEL \<and> msg \<noteq> WM_MOUSELEAVE)"

text \<open>
  The event built by the block of the pointer messages, with the host calls made on the
  way. \<open>other_window_under_mouse\<close> says whether \<^verbatim>\<open>WindowFromPoint\<close> gives a window other
  than \<open>h\<close>: the \<^verbatim>\<open>break\<close> there leaves the inner \<^verbatim>\<open>switch\<close> only.
\<close>

definition WndProc_MOUSE_event ::
  "bool \<Rightarrow> MouseMsg \<Rightarrow> 32 word \<Rightarrow> 32 word \<Rightarrow> MouseEvent \<times> effect list" where
  "WndProc_MOUSE_event other_window_under_mouse msg wParam lParam =
     (let event = MouseEvent_zero
            \<lparr>me_x := of_nat (unat (LOWORD lParam)), me_y := of_nat (unat (HIWORD lParam)),
             button := NONE,
             me_shiftDown := wParam AND MK_SHIFT \<noteq> 0,
             me_controlDown := wParam AND MK_CONTROL \<noteq> 0\<rparr>
      in case msg of
           WM_LBUTTONDOWN \<Rightarrow> (event\<lparr>button := LEFT, me_type := PRESS\<rparr>, [])
         | WM_MBUTTONDOWN \<Rightarrow> (event\<lparr>button := MIDDLE, me_type := PRESS\<rparr>, [])
         | WM_RBUTTONDOWN \<Rightarrow> (event\<lparr>button := RIGHT, me_type := PRESS\<rparr>, [])
         | WM_LBUTTONDBLCLK \<Rightarrow> (event\<lparr>button := LEFT, me_type := DBL_PRESS\<rparr>, [])
         | WM_MBUTTONDBLCLK \<Rightarrow> (event\<lparr>button := MIDDLE, me_type := DBL_PRESS\<rparr>, [])
         | WM_RBUTTONDBLCLK \<Rightarrow> (event\<lparr>button := RIGHT, me_type := DBL_PRESS\<rparr>, [])
         | WM_LBUTTONUP \<Rightarrow> (event\<lparr>button := LEFT, me_type := RELEASE\<rparr>, [])
         | WM_MBUTTONUP \<Rightarrow> (event\<lparr>button := MIDDLE, me_type := RELEASE\<rparr>, [])
         | WM_RBUTTONUP \<Rightarrow> (event\<lparr>button := RIGHT, me_type := RELEASE\<rparr>, [])
         | WM_MOUSEWHEEL \<Rightarrow>
             if other_window_under_mouse
             then (event, [SendMessage_hWindowUnderMouse])
             else (event\<lparr>me_type := SCROLL_VERT,
                         scrollDelta := (if GET_WHEEL_DELTA_WPARAM wParam > 0 then 1 else - 1)\<rparr>,
                   [])
         | WM_MOUSELEAVE \<Rightarrow> (event\<lparr>me_type := LEAVE\<rparr>, [])
         | WM_MOUSEMOVE \<Rightarrow>
             (let event = event\<lparr>me_type := MOTION\<rparr>;
                  event = (if wParam AND MK_LBUTTON \<noteq> 0 then event\<lparr>button := LEFT\<rparr>
                           else if wParam AND MK_MBUTTON \<noteq> 0 then event\<lparr>button := MIDDLE\<rparr>
                           else if wParam AND MK_RBUTTON \<noteq> 0 then event\<lparr>button := RIGHT\<rparr>
                           else event)
              in (event, [TrackMouseEvent_LEAVE])))"

text \<open>
  The whole block. \<open>now\<close> is \<^verbatim>\<open>GetMilliseconds()\<close>. The value the callback returns is not
  used.
\<close>

definition WndProc_MOUSE ::
  "'a Window_scheme \<Rightarrow> int \<Rightarrow> int \<Rightarrow> bool \<Rightarrow> MouseMsg \<Rightarrow> 32 word \<Rightarrow> 32 word
     \<Rightarrow> LRESULT \<times> effect list" where
  "WndProc_MOUSE window now contextMenuCancelTime other_window_under_mouse msg wParam lParam =
     (if is_button_msg msg \<and> now - contextMenuCancelTime < 100
      then (LRESULT 1, [])
      else
        (case WndProc_MOUSE_event other_window_under_mouse msg wParam lParam of
           (event, tr) \<Rightarrow>
             (case onMouseEvent window of
                Some cb \<Rightarrow> (LRESULT 1, tr @ [Call_onMouseEvent event])
              | None \<Rightarrow> (LRESULT 1, tr))))"

section \<open>The configuration store\<close>

text \<open>
  Modelled from the spec: \<^verbatim>\<open>CnfFreezeInt\<close> and \<^verbatim>\<open>CnfThawInt\<close> are called by both adapters and
  defined in neither. The spec gives them as "integer key/value persistence, namespaced
  string keys, default-on-miss semantics".
\<close>

type_synonym Cnf = "string \<rightharpoonup> int"

definition CnfFreezeInt :: "int \<Rightarrow> string \<Rightarrow> Cnf \<Rightarrow> Cnf" where
  "CnfFreezeInt v name cnf = cnf(name \<mapsto> v)"

definition CnfThawInt :: "int \<Rightarrow> string \<Rightarrow> Cnf \<Rightarrow> int" where
  "CnfThawInt v name cnf = (case cnf name of None \<Rightarrow> v | Some x \<Rightarrow> x)"

definition int_of_bool :: "bool \<Rightarrow> int" where
  "int_of_bool b = (if b then 1 else 0)"

section \<open>Win32: window placement (guiwin.cpp)\<close>

record RECT =
  r_left :: int
  r_top :: int
  r_right :: int
  r_bottom :: int


record WINDOWPLACEMENT =
  flags :: "32 word"
  showCmd :: nat
  rcNormalPosition :: RECT

text \<open>
  What the host answers about the window handle: \<^verbatim>\<open>IsWindowVisible\<close>, \<^verbatim>\<open>IsZoomed\<close> and
  the placement that \<^verbatim>\<open>GetWindowPlacement\<close> writes.
\<close>

record HWND =
  IsWindowVisible :: bool
  IsZoomed :: bool
  GetWindowPlacement :: WINDOWPLACEMENT

record WindowImplWin32 = Window +
  placement :: WINDOWPLACEMENT
  scrollbarVisible :: bool


definition IsVisible_Win32 :: "HWND \<Rightarrow> bool" where
  "IsVisible_Win32 hWindow = IsWindowVisible hWindow"

text \<open>\<^verbatim>\<open>WindowImplWin32::FreezePosition\<close>: the window and the store after the call.\<close>

definition FreezePosition_Win32 ::
  "WindowImplWin32 \<Rightarrow> HWND \<Rightarrow> string \<Rightarrow> Cnf \<Rightarrow> WindowImplWin32 \<times> Cnf" where
  "FreezePosition_Win32 window hWindow key cnf =
     (let window = window\<lparr>placement := GetWindowPlacement hWindow\<rparr>;
          isMaximized = int_of_bool (IsZoomed hWindow);
          rc = rcNormalPosition (placement window);
          cnf = CnfFreezeInt (r_left rc) (key @ ''_left'') cnf;
          cnf = CnfFreezeInt (r_right rc) (key @ ''_right'') cnf;
          cnf = CnfFreezeInt (r_top rc) (key @ ''_top'') cnf;
          cnf = CnfFreezeInt (r_bottom rc) (key @ ''_bottom'') cnf;
          cnf = CnfFreezeInt isMaximized (key @ ''_maximized'') cnf
      in (window, cnf))"

text \<open>
  The rectangle that \<^verbatim>\<open>WindowImplWin32::ThawPosition\<close> restores, before and after the
  clamping. \<open>rcMonitor\<close> is the host's answer to
  \<^verbatim>\<open>GetMonitorInfo(MonitorFromRect(&rc, MONITOR_DEFAULTTONEAREST), &mi)\<close>: the bounds of
  the monitor nearest to the rectangle it is given.
\<close>

definition ThawPosition_Win32_stored :: "HWND \<Rightarrow> string \<Rightarrow> Cnf \<Rightarrow> RECT" where
  "ThawPosition_Win32_stored hWindow key cnf =
     (let rc = rcNormalPosition (GetWindowPlacement hWindow);
          rc = rc\<lparr>r_left := CnfThawInt (r_left rc) (key @ ''_left'') cnf\<rparr>;
          rc = rc\<lparr>r_right := CnfThawInt (r_right rc) (key @ ''_right'') cnf\<rparr>;
          rc = rc\<lparr>r_top := CnfThawInt (r_top rc) (key @ ''_top'') cnf\<rparr>;
          rc = rc\<lparr>r_bottom := CnfThawInt (r_bottom rc) (key @ ''_bottom'') cnf\<rparr>
      in rc)"



section \<open>GTK: window placement (guigtk.cpp)\<close>

text \<open>
  The part of \<^verbatim>\<open>Gtk::Window\<close> that the two functions read and set: \<^verbatim>\<open>is_visible\<close>,
  \<^verbatim>\<open>get_position\<close>/\<^verbatim>\<open>move\<close>, \<^verbatim>\<open>get_size\<close>/\<^verbatim>\<open>resize\<close>, \<^verbatim>\<open>is_maximized\<close>/\<^verbatim>\<open>maximize\<close>.
\<close>

record GtkWindow =
  is_visible :: bool
  get_position :: "int \<times> int"
  get_size :: "int \<times> int"
  is_maximized :: bool

definition FreezePosition_Gtk :: "GtkWindow \<Rightarrow> string \<Rightarrow> Cnf \<Rightarrow> Cnf" where
  "FreezePosition_Gtk gtkWindow key cnf =
     (if \<not> is_visible gtkWindow then cnf
      else
        (let (left, top) = get_position gtkWindow;
             (width, height) = get_size gtkWindow;
             isMaximized = int_of_bool (is_maximized gtkWindow);
             cnf = CnfFreezeInt left (key @ ''_left'') cnf;
             cnf = CnfFreezeInt top (key @ ''_top'') cnf;
             cnf = CnfFreezeInt width (key @ ''_width'') cnf;
             cnf = CnfFreezeInt height (key @ ''_height'') cnf;
             cnf = CnfFreezeInt isMaximized (key @ ''_maximized'') cnf
         in cnf))"

definition ThawPosition_Gtk :: "GtkWindow \<Rightarrow> string \<Rightarrow> Cnf \<Rightarrow> GtkWindow" where
  "ThawPosition_Gtk gtkWindow key cnf =
     (let (left, top) = get_position gtkWindow;
          (width, height) = get_size gtkWindow;
          left = CnfThawInt left (key @ ''_left'') cnf;
          top = CnfThawInt top (key @ ''_top'') cnf;
          width = CnfThawInt width (key @ ''_width'') cnf;
          height = CnfThawInt height (key @ ''_height'') cnf;
          gtkWindow = gtkWindow\<lparr>get_position := (left, top)\<rparr>;
          gtkWindow = gtkWindow\<lparr>get_size := (width, height)\<rparr>
      in if CnfThawInt (int_of_bool False) (key @ ''_maximized'') cnf \<noteq> 0
         then gtkWindow\<lparr>is_maximized := True\<rparr>
         else gtkWindow)"

section \<open>Menu items\<close>

datatype Indicator = Indicator_NONE | CHECK_MARK | RADIO_MARK

text \<open>
  How a call ends when it does not return: \<^verbatim>\<open>ssassert\<close> failing, or \<^verbatim>\<open>sscheck\<close> reporting
  a failed host call through \<^verbatim>\<open>FatalError\<close>.
\<close>

datatype error = AssertionFailed string | FatalError string

subsection \<open>GTK (guigtk.cpp)\<close>

text \<open>
  \<^verbatim>\<open>class GtkMenuItem\<close>: its own two flags, and of the \<^verbatim>\<open>Gtk::CheckMenuItem\<close> beneath it
  the active state and the radio drawing.
\<close>

record GtkMenuItem =
  has_indicator :: bool
  synthetic_event :: bool
  get_active :: bool
  draw_as_radio :: bool

text \<open>The constructor: \<^verbatim>\<open>_has_indicator(false), _synthetic_event(false)\<close>, inactive.\<close>

definition GtkMenuItem_new :: GtkMenuItem where
  "GtkMenuItem_new =
     \<lparr>has_indicator = False, synthetic_event = False, get_active = False,
      draw_as_radio = False\<rparr>"

text \<open>
  \<^verbatim>\<open>GtkMenuItem::set_active\<close>. The activation it causes runs with \<^verbatim>\<open>_synthetic_event\<close> set,
  so \<^verbatim>\<open>on_activate\<close> does not call \<^verbatim>\<open>onTrigger\<close>.
\<close>

definition set_active :: "GtkMenuItem \<Rightarrow> bool \<Rightarrow> GtkMenuItem" where
  "set_active item active =
     (if get_active item = active then item
      else
        (let item = item\<lparr>synthetic_event := True\<rparr>;
             item = item\<lparr>get_active := active\<rparr>
         in item\<lparr>synthetic_event := False\<rparr>))"

definition SetIndicator_Gtk :: "GtkMenuItem \<Rightarrow> Indicator \<Rightarrow> GtkMenuItem" where
  "SetIndicator_Gtk gtkMenuItem type =
     (case type of
        Indicator_NONE \<Rightarrow> gtkMenuItem\<lparr>has_indicator := False\<rparr>
      | CHECK_MARK \<Rightarrow> gtkMenuItem\<lparr>has_indicator := True, draw_as_radio := False\<rparr>
      | RADIO_MARK \<Rightarrow> gtkMenuItem\<lparr>has_indicator := True, draw_as_radio := True\<rparr>)"

definition SetActive_Gtk :: "GtkMenuItem \<Rightarrow> bool \<Rightarrow> error + GtkMenuItem" where
  "SetActive_Gtk gtkMenuItem active =
     (if \<not> has_indicator gtkMenuItem
      then Inl (AssertionFailed ''Cannot change state of a menu item without indicator'')
      else Inr (set_active gtkMenuItem active))"

subsection \<open>Win32 (guiwin.cpp)\<close>

record MENUITEMINFOW =
  fType :: "32 word"
  fState :: "32 word"

definition MFT_RADIOCHECK :: "32 word" where "MFT_RADIOCHECK = 0x200"
definition MFS_CHECKED :: "32 word" where "MFS_CHECKED = 0x8"

text \<open>
  The host's menu, as far as the item functions reach it: the items it holds, by
  identifier (the item's address), each with its type and state words. A host call on an
  identifier the menu does not hold fails, and \<^verbatim>\<open>sscheck\<close> ends the program.
\<close>

type_synonym HMENU = "nat \<rightharpoonup> MENUITEMINFOW"

definition GetInfo :: "HMENU \<Rightarrow> nat \<Rightarrow> error + MENUITEMINFOW" where
  "GetInfo hMenu this =
     (case hMenu this of
        None \<Rightarrow> Inl (FatalError ''GetMenuItemInfoW'')
      | Some mii \<Rightarrow> Inr mii)"

definition SetMenuItemInfoW :: "HMENU \<Rightarrow> nat \<Rightarrow> MENUITEMINFOW \<Rightarrow> error + HMENU" where
  "SetMenuItemInfoW hMenu this mii =
     (case hMenu this of
        None \<Rightarrow> Inl (FatalError ''SetMenuItemInfoW'')
      | Some old \<Rightarrow> Inr (hMenu(this \<mapsto> mii)))"

text \<open>\<^verbatim>\<open>AppendMenuW(hMenu, MF_STRING, item, label)\<close> in \<^verbatim>\<open>AddItem\<close>: a string item, unchecked.\<close>

definition AddItem_Win32 :: "HMENU \<Rightarrow> nat \<Rightarrow> HMENU" where
  "AddItem_Win32 hMenu this = hMenu(this \<mapsto> \<lparr>fType = 0, fState = 0\<rparr>)"

definition SetIndicator_Win32 :: "HMENU \<Rightarrow> nat \<Rightarrow> Indicator \<Rightarrow> error + HMENU" where
  "SetIndicator_Win32 hMenu this type =
     (case GetInfo hMenu this of
        Inl e \<Rightarrow> Inl e
      | Inr mii \<Rightarrow>
          SetMenuItemInfoW hMenu this
            (case type of
               Indicator_NONE \<Rightarrow> mii\<lparr>fType := fType mii AND NOT MFT_RADIOCHECK\<rparr>
             | CHECK_MARK \<Rightarrow> mii\<lparr>fType := fType mii AND NOT MFT_RADIOCHECK\<rparr>
             | RADIO_MARK \<Rightarrow> mii\<lparr>fType := fType mii OR MFT_RADIOCHECK\<rparr>))"

definition SetActive_Win32 :: "HMENU \<Rightarrow> nat \<Rightarrow> bool \<Rightarrow> error + HMENU" where
  "SetActive_Win32 hMenu this active =
     (case GetInfo hMenu this of
        Inl e \<Rightarrow> Inl e
      | Inr mii \<Rightarrow>
          SetMenuItemInfoW hMenu this
            (if active
             then mii\<lparr>fState := fState mii OR MFS_CHECKED\<rparr>
             else mii\<lparr>fState := fState mii AND NOT MFS_CHECKED\<rparr>))"

section \<open>Scrollbar\<close>

text \<open>
  The positions are doubles in the source. The model holds a finite double as the
  rational it denotes. The only arithmetic the scrollbar functions do on them is the
  multiplication and the division by 65536, a power of two, which doubles carry out
  without rounding.
\<close>

subsection \<open>Win32 (guiwin.cpp)\<close>

definition SCROLLBAR_UNIT :: int where "SCROLLBAR_UNIT = 65536"

text \<open>
  The cast \<^verbatim>\<open>(UINT)\<close> of a double: the fraction is dropped. C++ defines the cast when the
  result fits the type; elsewhere the model wraps.
\<close>

definition UINT_of_double :: "rat \<Rightarrow> 32 word" where
  "UINT_of_double d = word_of_int (if 0 \<le> d then \<lfloor>d\<rfloor> else \<lceil>d\<rceil>)"

text \<open>\<^verbatim>\<open>SCROLLINFO\<close>; the members of type \<^verbatim>\<open>int\<close> hold the value of a 32-bit signed integer.\<close>

record SCROLLINFO =
  nMin :: int
  nMax :: int
  nPage :: int
  nPos :: int

text \<open>
  The host's \<^verbatim>\<open>SetScrollInfo\<close>, as its documentation gives it: the page is kept between 0
  and \<open>nMax - nMin + 1\<close> and the position between \<open>nMin\<close> and \<open>nMax - max (nPage - 1) 0\<close>;
  a value beyond its range is set to the nearest one within.
\<close>

definition SetScrollInfo_check :: "SCROLLINFO \<Rightarrow> SCROLLINFO" where
  "SetScrollInfo_check info =
     (let info = (if nPage info < 0 then info\<lparr>nPage := 0\<rparr>
                  else if nPage info > nMax info - nMin info + 1
                  then info\<lparr>nPage := nMax info - nMin info + 1\<rparr>
                  else info)
      in if nPos info < nMin info then info\<lparr>nPos := nMin info\<rparr>
         else if nPos info > nMax info - max (nPage info - 1) 0
         then info\<lparr>nPos := nMax info - max (nPage info - 1) 0\<rparr>
         else info)"

definition SetScrollInfo_RANGE_PAGE :: "SCROLLINFO \<Rightarrow> SCROLLINFO \<Rightarrow> SCROLLINFO" where
  "SetScrollInfo_RANGE_PAGE host si =
     SetScrollInfo_check (host\<lparr>nMin := nMin si, nMax := nMax si, nPage := nPage si\<rparr>)"

definition SetScrollInfo_POS :: "SCROLLINFO \<Rightarrow> SCROLLINFO \<Rightarrow> SCROLLINFO" where
  "SetScrollInfo_POS host si = SetScrollInfo_check (host\<lparr>nPos := nPos si\<rparr>)"

definition SCROLLINFO_zero :: SCROLLINFO where
  "SCROLLINFO_zero = \<lparr>nMin = 0, nMax = 0, nPage = 0, nPos = 0\<rparr>"

text \<open>The member initialisers of \<^verbatim>\<open>WindowImplWin32\<close>, with the callback slots given.\<close>

definition WindowImplWin32_new :: "Window \<Rightarrow> WINDOWPLACEMENT \<Rightarrow> WindowImplWin32" where
  "WindowImplWin32_new w p =
     Window.extend w (WindowImplWin32.fields p False)"

definition SetScrollbarVisible_Win32 :: "WindowImplWin32 \<Rightarrow> bool \<Rightarrow> WindowImplWin32" where
  "SetScrollbarVisible_Win32 window visible = window\<lparr>scrollbarVisible := visible\<rparr>"

text \<open>The functions below take and return the host's scroll bar state beside the window.\<close>

definition ConfigureScrollbar_Win32 :: "SCROLLINFO \<Rightarrow> rat \<Rightarrow> rat \<Rightarrow> rat \<Rightarrow> SCROLLINFO" where
  "ConfigureScrollbar_Win32 host min' max' pageSize =
     (let si = SCROLLINFO_zero;
          si = si\<lparr>nMin := sint (UINT_of_double (min' * of_int SCROLLBAR_UNIT))\<rparr>;
          si = si\<lparr>nMax := sint (UINT_of_double (max' * of_int SCROLLBAR_UNIT))\<rparr>;
          si = si\<lparr>nPage := uint (UINT_of_double (pageSize * of_int SCROLLBAR_UNIT))\<rparr>
      in SetScrollInfo_RANGE_PAGE host si)"

definition GetScrollbarPosition_Win32 :: "WindowImplWin32 \<Rightarrow> SCROLLINFO \<Rightarrow> rat" where
  "GetScrollbarPosition_Win32 window host =
     (if \<not> scrollbarVisible window then 0
      else of_int (nPos host) / of_int SCROLLBAR_UNIT)"

definition SetScrollbarPosition_Win32 ::
  "WindowImplWin32 \<Rightarrow> SCROLLINFO \<Rightarrow> rat \<Rightarrow> SCROLLINFO \<times> effect list" where
  "SetScrollbarPosition_Win32 window host pos =
     (let si = SCROLLINFO_zero;
          si = si\<lparr>nPos := sint (UINT_of_double (pos * of_int SCROLLBAR_UNIT))\<rparr>;
          host = SetScrollInfo_POS host si
      in if onScrollbarAdjusted window
         then (host, [Call_onScrollbarAdjusted (of_int (nPos si) / of_int SCROLLBAR_UNIT)])
         else (host, []))"

subsection \<open>GTK (guigtk.cpp)\<close>

text \<open>
  The \<^verbatim>\<open>Gtk::Adjustment\<close> of the scrollbar. \<^verbatim>\<open>configure\<close> and \<^verbatim>\<open>set_value\<close> are the host's:
  both keep the value at most \<open>upper - page_size\<close> and then at least \<open>lower\<close>, and say
  whether the value changed, which is when the host emits \<^verbatim>\<open>value_changed\<close>.
\<close>

record Adjustment =
  adj_value :: rat
  adj_lower :: rat
  adj_upper :: rat
  adj_step_increment :: rat
  adj_page_increment :: rat
  adj_page_size :: rat

definition Adjustment_new :: Adjustment where
  "Adjustment_new =
     \<lparr>adj_value = 0, adj_lower = 0, adj_upper = 0, adj_step_increment = 0,
      adj_page_increment = 0, adj_page_size = 0\<rparr>"

definition configure ::
  "Adjustment \<Rightarrow> rat \<Rightarrow> rat \<Rightarrow> rat \<Rightarrow> rat \<Rightarrow> rat \<Rightarrow> rat \<Rightarrow> Adjustment \<times> bool" where
  "configure adjustment v lower upper step_increment page_increment page_size =
     (let v = max (min v (upper - page_size)) lower
      in (\<lparr>adj_value = v, adj_lower = lower, adj_upper = upper,
           adj_step_increment = step_increment, adj_page_increment = page_increment,
           adj_page_size = page_size\<rparr>,
          v \<noteq> adj_value adjustment))"

definition set_value :: "Adjustment \<Rightarrow> rat \<Rightarrow> Adjustment \<times> bool" where
  "set_value adjustment v =
     (let v = max (min v (adj_upper adjustment - adj_page_size adjustment))
                (adj_lower adjustment)
      in (adjustment\<lparr>adj_value := v\<rparr>, v \<noteq> adj_value adjustment))"

text \<open>\<^verbatim>\<open>GtkWindow::on_scrollbar_value_changed\<close>, connected to \<^verbatim>\<open>value_changed\<close>.\<close>

definition on_scrollbar_value_changed :: "'a Window_scheme \<Rightarrow> Adjustment \<Rightarrow> effect list" where
  "on_scrollbar_value_changed receiver adjustment =
     (if onScrollbarAdjusted receiver
      then [Call_onScrollbarAdjusted (adj_value adjustment)]
      else [])"

definition ConfigureScrollbar_Gtk ::
  "'a Window_scheme \<Rightarrow> Adjustment \<Rightarrow> rat \<Rightarrow> rat \<Rightarrow> rat \<Rightarrow> Adjustment \<times> effect list" where
  "ConfigureScrollbar_Gtk receiver adjustment min' max' pageSize =
     (case configure adjustment (adj_value adjustment) min' max' 1 4 pageSize of
        (adjustment, True) \<Rightarrow> (adjustment, on_scrollbar_value_changed receiver adjustment)
      | (adjustment, False) \<Rightarrow> (adjustment, []))"

definition GetScrollbarPosition_Gtk :: "Adjustment \<Rightarrow> rat" where
  "GetScrollbarPosition_Gtk adjustment = adj_value adjustment"

definition SetScrollbarPosition_Gtk ::
  "'a Window_scheme \<Rightarrow> Adjustment \<Rightarrow> rat \<Rightarrow> Adjustment \<times> effect list" where
  "SetScrollbarPosition_Gtk receiver adjustment pos =
     (case set_value adjustment pos of
        (adjustment, True) \<Rightarrow> (adjustment, on_scrollbar_value_changed receiver adjustment)
      | (adjustment, False) \<Rightarrow> (adjustment, []))"

section \<open>Timers\<close>

text \<open>
  \<^verbatim>\<open>class Timer\<close> (gui.h): the slot \<open>onTimeout\<close> records whether a callback is registered.
  Timer objects are named by their address, a number. Time is counted in milliseconds.
  Each model keeps, beside the host's pending timers, the list \<open>fired\<close> of the timers
  whose \<open>onTimeout\<close> has been invoked, in order.
\<close>

record Timer =
  onTimeout :: bool

datatype timer_op = Op_WindUp nat nat | Op_Elapse nat

subsection \<open>GTK (guigtk.cpp)\<close>

text \<open>
  \<^verbatim>\<open>sigc::connection _connection\<close> is \<open>None\<close> until the first \<^verbatim>\<open>connect\<close>, and then names a
  timeout source of the main loop.
\<close>

record TimerImplGtk = Timer +
  connection :: "nat option"

text \<open>
  The host: the main loop's clock and its timeout sources, each with its name, the timer
  whose handler it runs and the time it is due, and the next unused name.
\<close>

record GtkTimers =
  g_timer :: "nat \<Rightarrow> TimerImplGtk"
  g_now :: nat
  g_sources :: "(nat \<times> nat \<times> nat) list"
  g_next :: nat
  g_fired :: "nat list"

definition GtkTimers_new :: "(nat \<Rightarrow> bool) \<Rightarrow> GtkTimers" where
  "GtkTimers_new registered =
     \<lparr>g_timer = (\<lambda>this. \<lparr>onTimeout = registered this, connection = None\<rparr>),
      g_now = 0, g_sources = [], g_next = 0, g_fired = []\<rparr>"

text \<open>\<^verbatim>\<open>sigc::connection::empty\<close>: no source, or a source that is gone.\<close>

definition connection_empty :: "GtkTimers \<Rightarrow> nat option \<Rightarrow> bool" where
  "connection_empty w c =
     (case c of None \<Rightarrow> True | Some i \<Rightarrow> i \<notin> set (map fst (g_sources w)))"

definition disconnect :: "GtkTimers \<Rightarrow> nat option \<Rightarrow> GtkTimers" where
  "disconnect w c =
     (case c of
        None \<Rightarrow> w
      | Some i \<Rightarrow> w\<lparr>g_sources := filter (\<lambda>s. fst s \<noteq> i) (g_sources w)\<rparr>)"

text \<open>\<^verbatim>\<open>Glib::signal_timeout().connect(handler, milliseconds)\<close> for the handler of \<open>this\<close>.\<close>

definition signal_timeout_connect :: "GtkTimers \<Rightarrow> nat \<Rightarrow> nat \<Rightarrow> GtkTimers \<times> nat" where
  "signal_timeout_connect w this milliseconds =
     (w\<lparr>g_sources := g_sources w @ [(g_next w, this, g_now w + milliseconds)],
        g_next := Suc (g_next w)\<rparr>,
      g_next w)"

definition WindUp_Gtk :: "nat \<Rightarrow> nat \<Rightarrow> GtkTimers \<Rightarrow> GtkTimers" where
  "WindUp_Gtk this milliseconds w =
     (let w = (if \<not> connection_empty w (connection (g_timer w this))
               then disconnect w (connection (g_timer w this))
               else w);
          (w, c) = signal_timeout_connect w this milliseconds
      in w\<lparr>g_timer := (g_timer w)(this := (g_timer w this)\<lparr>connection := Some c\<rparr>)\<rparr>)"

text \<open>
  The lambda \<open>handler\<close> of \<^verbatim>\<open>WindUp\<close>, run by the main loop for a source that is due: it
  invokes \<open>onTimeout\<close> when registered and returns \<open>false\<close>, on which the host removes the
  source.
\<close>

definition handler :: "nat \<times> nat \<times> nat \<Rightarrow> GtkTimers \<Rightarrow> GtkTimers" where
  "handler s w =
     (let this = fst (snd s);
          w = (if onTimeout (g_timer w this) then w\<lparr>g_fired := g_fired w @ [this]\<rparr> else w)
      in w\<lparr>g_sources := filter (\<lambda>s'. fst s' \<noteq> fst s) (g_sources w)\<rparr>)"

text \<open>The main loop running while \<open>dt\<close> milliseconds pass.\<close>

definition Elapse_Gtk :: "nat \<Rightarrow> GtkTimers \<Rightarrow> GtkTimers" where
  "Elapse_Gtk dt w =
     (let w = w\<lparr>g_now := g_now w + dt\<rparr>
      in fold handler (filter (\<lambda>s. snd (snd s) \<le> g_now w) (g_sources w)) w)"

fun step_Gtk :: "timer_op \<Rightarrow> GtkTimers \<Rightarrow> GtkTimers" where
  "step_Gtk (Op_WindUp this milliseconds) w = WindUp_Gtk this milliseconds w"
| "step_Gtk (Op_Elapse dt) w = Elapse_Gtk dt w"

definition run_Gtk :: "timer_op list \<Rightarrow> GtkTimers \<Rightarrow> GtkTimers" where
  "run_Gtk ops w = fold step_Gtk ops w"

text \<open>The times at which fires of the timer \<open>this\<close> are pending.\<close>

definition pending_Gtk :: "nat \<Rightarrow> GtkTimers \<Rightarrow> nat list" where
  "pending_Gtk this w = map (\<lambda>s. snd (snd s)) (filter (\<lambda>s. fst (snd s) = this) (g_sources w))"

subsection \<open>Win32 (guiwin.cpp)\<close>

text \<open>
  The host: its clock and the timers of the message window, each with its identifier
  (the address of the timer object), its period and the time it is next due. The host's
  \<^verbatim>\<open>SetTimer\<close> replaces a timer that has the same identifier, and \<^verbatim>\<open>KillTimer\<close> removes
  it.
\<close>

record Win32Timers =
  w_timer :: "nat \<Rightarrow> Timer"
  w_now :: nat
  w_timers :: "(nat \<times> nat \<times> nat) list"
  w_fired :: "nat list"

definition Win32Timers_new :: "(nat \<Rightarrow> bool) \<Rightarrow> Win32Timers" where
  "Win32Timers_new registered =
     \<lparr>w_timer = (\<lambda>this. \<lparr>onTimeout = registered this\<rparr>),
      w_now = 0, w_timers = [], w_fired = []\<rparr>"

definition KillTimer :: "nat \<Rightarrow> Win32Timers \<Rightarrow> Win32Timers" where
  "KillTimer event w = w\<lparr>w_timers := filter (\<lambda>t. fst t \<noteq> event) (w_timers w)\<rparr>"

definition SetTimer :: "nat \<Rightarrow> nat \<Rightarrow> Win32Timers \<Rightarrow> Win32Timers" where
  "SetTimer event milliseconds w =
     w\<lparr>w_timers := filter (\<lambda>t. fst t \<noteq> event) (w_timers w)
                     @ [(event, milliseconds, w_now w + milliseconds)]\<rparr>"

definition WindUp_Win32 :: "nat \<Rightarrow> nat \<Rightarrow> Win32Timers \<Rightarrow> Win32Timers" where
  "WindUp_Win32 this milliseconds w = SetTimer this milliseconds w"

definition TimerFunc :: "nat \<Rightarrow> Win32Timers \<Rightarrow> Win32Timers" where
  "TimerFunc event w =
     (let w = KillTimer event w
      in if onTimeout (w_timer w event) then w\<lparr>w_fired := w_fired w @ [event]\<rparr> else w)"

text \<open>
  The message loop running while \<open>dt\<close> milliseconds pass: it calls \<^verbatim>\<open>TimerFunc\<close> for each
  timer that is due. \<^verbatim>\<open>TimerFunc\<close> kills the timer first, so none comes due a second
  time.
\<close>

definition Elapse_Win32 :: "nat \<Rightarrow> Win32Timers \<Rightarrow> Win32Timers" where
  "Elapse_Win32 dt w =
     (let w = w\<lparr>w_now := w_now w + dt\<rparr>
      in fold (\<lambda>t. TimerFunc (fst t)) (filter (\<lambda>t. snd (snd t) \<le> w_now w) (w_timers w)) w)"

fun step_Win32 :: "timer_op \<Rightarrow> Win32Timers \<Rightarrow> Win32Timers" where
  "step_Win32 (Op_WindUp this milliseconds) w = WindUp_Win32 this milliseconds w"
| "step_Win32 (Op_Elapse dt) w = Elapse_Win32 dt w"

definition run_Win32 :: "timer_op list \<Rightarrow> Win32Timers \<Rightarrow> Win32Timers" where
  "run_Win32 ops w = fold step_Win32 ops w"

definition pending_Win32 :: "nat \<Rightarrow> Win32Timers \<Rightarrow> nat list" where
  "pending_Win32 this w = map (\<lambda>t. snd (snd t)) (filter (\<lambda>t. fst t = this) (w_timers w))"

section \<open>Sequences of calls and predicates for the properties\<close>

text \<open>Calls of the scrollbar functions of a Win32 window, applied in order.\<close>

datatype scrollbar_op =
    Op_SetScrollbarVisible bool
  | Op_ConfigureScrollbar rat rat rat
  | Op_SetScrollbarPosition rat

fun step_scrollbar_Win32 ::
  "scrollbar_op \<Rightarrow> WindowImplWin32 \<times> SCROLLINFO \<Rightarrow> WindowImplWin32 \<times> SCROLLINFO" where
  "step_scrollbar_Win32 (Op_SetScrollbarVisible visible) (window, host) =
     (SetScrollbarVisible_Win32 window visible, host)"
| "step_scrollbar_Win32 (Op_ConfigureScrollbar min' max' pageSize) (window, host) =
     (window, ConfigureScrollbar_Win32 host min' max' pageSize)"
| "step_scrollbar_Win32 (Op_SetScrollbarPosition pos) (window, host) =
     (window, fst (SetScrollbarPosition_Win32 window host pos))"

definition run_scrollbar_Win32 ::
  "scrollbar_op list \<Rightarrow> WindowImplWin32 \<times> SCROLLINFO \<Rightarrow> WindowImplWin32 \<times> SCROLLINFO" where
  "run_scrollbar_Win32 ops s = fold step_scrollbar_Win32 ops s"






text \<open>
  What holds of the timers after any sequence of calls. GTK: the sources of the main loop
  have different names, all below the next unused one, and each is the source that its
  timer's connection names. Win32: the host's timers have different identifiers.
\<close>

definition invar_Gtk :: "GtkTimers \<Rightarrow> bool" where
  "invar_Gtk w =
     (distinct (map fst (g_sources w)) \<and>
      list_all (\<lambda>s. fst s < g_next w \<and> connection (g_timer w (fst (snd s))) = Some (fst s))
        (g_sources w))"

definition invar_Win32 :: "Win32Timers \<Rightarrow> bool" where
  "invar_Win32 w = distinct (map fst (w_timers w))"

text \<open>
  The first step of \<^verbatim>\<open>WindUp\<close> on GTK: the timer's connection, when it names a source,
  is disconnected.
\<close>

definition cleared :: "nat \<Rightarrow> GtkTimers \<Rightarrow> GtkTimers" where
  "cleared this w =
     (if \<not> connection_empty w (connection (g_timer w this))
      then disconnect w (connection (g_timer w this)) else w)"

text \<open>Values at which the properties below are evaluated.\<close>

definition never_handled :: "'e \<Rightarrow> bool" where
  "never_handled event = False"

definition always_handled :: "'e \<Rightarrow> bool" where
  "always_handled event = True"

definition callbacks_registered :: Window where
  "callbacks_registered =
     \<lparr>onMouseEvent = Some never_handled, onKeyboardEvent = Some never_handled,
      onScrollbarAdjusted = True\<rparr>"

definition placement_100 :: WINDOWPLACEMENT where
  "placement_100 =
     \<lparr>flags = 0, showCmd = 0,
      rcNormalPosition = \<lparr>r_left = 10, r_top = 20, r_right = 110, r_bottom = 120\<rparr>\<rparr>"

definition hWindow_hidden :: HWND where
  "hWindow_hidden =
     \<lparr>IsWindowVisible = False, IsZoomed = False, GetWindowPlacement = placement_100\<rparr>"


definition cnf_far_right :: Cnf where
  "cnf_far_right =
     [''w_left'' \<mapsto> 5000, ''w_right'' \<mapsto> 5800, ''w_top'' \<mapsto> - 300, ''w_bottom'' \<mapsto> 300,
      ''w_width'' \<mapsto> 800, ''w_height'' \<mapsto> 600]"


definition gtkWindow_hidden :: GtkWindow where
  "gtkWindow_hidden =
     \<lparr>is_visible = False, get_position = (10, 20), get_size = (100, 100),
      is_maximized = False\<rparr>"

text \<open>
  A keyboard layout for \<^verbatim>\<open>MapVirtualKeyW\<close>, given on the keys A (0x41) and period
  (\<^verbatim>\<open>VK_OEM_PERIOD\<close>, 0xBE), and three key states: no key down, Shift down, Control and
  Alt down.
\<close>

definition layout_A_period :: "nat \<Rightarrow> 32 word" where
  "layout_A_period vk = (if vk = 0x41 then 0x41 else if vk = 0xBE then 0x2E else 0)"

definition keys_up :: "nat \<Rightarrow> 16 word" where
  "keys_up vk = 0"


definition keys_ctrl_alt :: "nat \<Rightarrow> 16 word" where
  "keys_ctrl_alt vk = (if vk = VK_CONTROL \<or> vk = VK_MENU then 0x8000 else 0)"

text \<open>
  The two GDK functions on the key values of Latin-1, which are their own code points:
  lower-casing of A to Z, and the code point of a key value.
\<close>

definition keyval_to_lower_latin1 :: "32 word \<Rightarrow> 32 word" where
  "keyval_to_lower_latin1 k = (if 0x41 \<le> k \<and> k \<le> 0x5A then k + 0x20 else k)"

definition keyval_to_unicode_latin1 :: "32 word \<Rightarrow> 32 word" where
  "keyval_to_unicode_latin1 k =
     (if (0x20 \<le> k \<and> k \<le> 0x7E) \<or> (0xA0 \<le> k \<and> k \<le> 0xFF) then k else 0)"

section \<open>Properties\<close>

subsection \<open>The Win32 scrollbar position while the scrollbar is hidden\<close>

lemma step_scrollbar_Win32_hidden:
  "op \<noteq> Op_SetScrollbarVisible True \<Longrightarrow> \<not> scrollbarVisible (fst s)
     \<Longrightarrow> \<not> scrollbarVisible (fst (step_scrollbar_Win32 op s))"
  by (cases op; cases s) (auto simp: SetScrollbarVisible_Win32_def)

lemma run_scrollbar_Win32_hidden:
  "Op_SetScrollbarVisible True \<notin> set ops \<Longrightarrow> \<not> scrollbarVisible (fst s)
     \<Longrightarrow> \<not> scrollbarVisible (fst (run_scrollbar_Win32 ops s))"
proof (induction ops arbitrary: s)
  case Nil
  then show ?case by (simp add: run_scrollbar_Win32_def)
next
  case (Cons op ops)
  from Cons.prems have "\<not> scrollbarVisible (fst (step_scrollbar_Win32 op s))"
    by (intro step_scrollbar_Win32_hidden) auto
  moreover from Cons.prems have "Op_SetScrollbarVisible True \<notin> set ops" by simp
  ultimately have
    "\<not> scrollbarVisible (fst (run_scrollbar_Win32 ops (step_scrollbar_Win32 op s)))"
    by (rule Cons.IH[rotated])
  then show ?case by (simp add: run_scrollbar_Win32_def)
qed

lemma WindowImplWin32_new_hidden: "\<not> scrollbarVisible (WindowImplWin32_new w p)"
  by (simp add: WindowImplWin32_new_def Window.extend_def WindowImplWin32.fields_def)

lemma run_scrollbar_Win32_configure_set:
  "run_scrollbar_Win32 [Op_ConfigureScrollbar 0 10 2, Op_SetScrollbarPosition 5]
         (WindowImplWin32_new callbacks_registered placement_100, SCROLLINFO_zero)
       = (WindowImplWin32_new callbacks_registered placement_100,
          \<lparr>nMin = 0, nMax = 655360, nPage = 131072, nPos = 327680\<rparr>)"
  by (simp add: run_scrollbar_Win32_def ConfigureScrollbar_Win32_def
        SetScrollbarPosition_Win32_def SetScrollInfo_RANGE_PAGE_def SetScrollInfo_POS_def
        SetScrollInfo_check_def SCROLLINFO_zero_def UINT_of_double_def SCROLLBAR_UNIT_def
        Let_def)

text \<open>
  C10. On Win32, a window that is newly made and has then been through any calls of
  \<^verbatim>\<open>ConfigureScrollbar\<close>, \<^verbatim>\<open>SetScrollbarPosition\<close> and \<^verbatim>\<open>SetScrollbarVisible\<close>, none of them
  \<^verbatim>\<open>SetScrollbarVisible(true)\<close>, answers 0.0 to \<^verbatim>\<open>GetScrollbarPosition\<close>, whatever position
  the host's scroll bar holds; once \<^verbatim>\<open>SetScrollbarVisible(true)\<close> is called it answers the
  position the host holds, divided by 65536.
\<close>

theorem GetScrollbarPosition_Win32_hidden:
  "Op_SetScrollbarVisible True \<notin> set ops \<Longrightarrow>
     run_scrollbar_Win32 ops (WindowImplWin32_new w p, host) = (window, host') \<Longrightarrow>
     GetScrollbarPosition_Win32 window host' = 0 \<and>
     GetScrollbarPosition_Win32 (SetScrollbarVisible_Win32 window True) host'
       = of_int (nPos host') / of_int SCROLLBAR_UNIT"
proof -
  assume a: "Op_SetScrollbarVisible True \<notin> set ops"
    and r: "run_scrollbar_Win32 ops (WindowImplWin32_new w p, host) = (window, host')"
  have "\<not> scrollbarVisible (fst (run_scrollbar_Win32 ops (WindowImplWin32_new w p, host)))"
    using a by (intro run_scrollbar_Win32_hidden) (simp_all add: WindowImplWin32_new_hidden)
  with r have "\<not> scrollbarVisible window" by simp
  then show ?thesis
    by (simp add: GetScrollbarPosition_Win32_def SetScrollbarVisible_Win32_def)
qed

theorem GetScrollbarPosition_Win32_hidden_witness:
  "Op_SetScrollbarVisible True
     \<notin> set [Op_ConfigureScrollbar 0 10 2, Op_SetScrollbarPosition 5] \<and>
   run_scrollbar_Win32 [Op_ConfigureScrollbar 0 10 2, Op_SetScrollbarPosition 5]
         (WindowImplWin32_new callbacks_registered placement_100, SCROLLINFO_zero)
     = (WindowImplWin32_new callbacks_registered placement_100,
        \<lparr>nMin = 0, nMax = 655360, nPage = 131072, nPos = 327680\<rparr>) \<and>
   GetScrollbarPosition_Win32 (WindowImplWin32_new callbacks_registered placement_100)
       \<lparr>nMin = 0, nMax = 655360, nPage = 131072, nPos = 327680\<rparr> = 0 \<and>
   GetScrollbarPosition_Win32
       (SetScrollbarVisible_Win32 (WindowImplWin32_new callbacks_registered placement_100) True)
       \<lparr>nMin = 0, nMax = 655360, nPage = 131072, nPos = 327680\<rparr> = 5"
  using GetScrollbarPosition_Win32_hidden
          [OF _ run_scrollbar_Win32_configure_set]
        run_scrollbar_Win32_configure_set
  by (simp add: SCROLLBAR_UNIT_def)

subsection \<open>Thawing a window position\<close>








subsection \<open>Freezing the position of a window that is not visible\<close>

lemma FreezePosition_Win32_store:
  "snd (FreezePosition_Win32 window hWindow key cnf)
     = cnf(key @ ''_left'' \<mapsto> r_left (rcNormalPosition (GetWindowPlacement hWindow)),
           key @ ''_right'' \<mapsto> r_right (rcNormalPosition (GetWindowPlacement hWindow)),
           key @ ''_top'' \<mapsto> r_top (rcNormalPosition (GetWindowPlacement hWindow)),
           key @ ''_bottom'' \<mapsto> r_bottom (rcNormalPosition (GetWindowPlacement hWindow)),
           key @ ''_maximized'' \<mapsto> int_of_bool (IsZoomed hWindow))"
  by (simp add: FreezePosition_Win32_def CnfFreezeInt_def Let_def)

text \<open>
  C2, as amended. On GTK, \<^verbatim>\<open>FreezePosition\<close> on a window that is not visible leaves the
  store as it is, so a later \<^verbatim>\<open>ThawPosition\<close> of any window and key reads what was stored
  before. On Win32, \<^verbatim>\<open>FreezePosition\<close> does not look at the visibility: for a hidden as
  for a shown window it stores, under the key, the left, right, top and bottom edges of
  the window's normal position and whether the window is maximized, and leaves every
  other entry of the store as it is.
\<close>

theorem FreezePosition_invisible:
  "(\<not> is_visible gtkWindow \<longrightarrow>
      FreezePosition_Gtk gtkWindow key cnf = cnf \<and>
      ThawPosition_Gtk gtkWindow' key' (FreezePosition_Gtk gtkWindow key cnf)
        = ThawPosition_Gtk gtkWindow' key' cnf) \<and>
   snd (FreezePosition_Win32 window (hWindow\<lparr>IsWindowVisible := False\<rparr>) key cnf)
     = snd (FreezePosition_Win32 window (hWindow\<lparr>IsWindowVisible := True\<rparr>) key cnf) \<and>
   snd (FreezePosition_Win32 window hWindow key cnf)
     = cnf(key @ ''_left'' \<mapsto> r_left (rcNormalPosition (GetWindowPlacement hWindow)),
           key @ ''_right'' \<mapsto> r_right (rcNormalPosition (GetWindowPlacement hWindow)),
           key @ ''_top'' \<mapsto> r_top (rcNormalPosition (GetWindowPlacement hWindow)),
           key @ ''_bottom'' \<mapsto> r_bottom (rcNormalPosition (GetWindowPlacement hWindow)),
           key @ ''_maximized'' \<mapsto> int_of_bool (IsZoomed hWindow))"
  by (simp add: FreezePosition_Gtk_def FreezePosition_Win32_store)

theorem FreezePosition_invisible_witness:
  "\<not> is_visible gtkWindow_hidden \<and>
   FreezePosition_Gtk gtkWindow_hidden ''w'' cnf_far_right = cnf_far_right \<and>
   get_position (ThawPosition_Gtk gtkWindow_hidden ''w''
       (FreezePosition_Gtk gtkWindow_hidden ''w'' cnf_far_right)) = (5000, - 300)"
  using FreezePosition_invisible
          [of gtkWindow_hidden "''w''" cnf_far_right gtkWindow_hidden "''w''"]
  by (simp add: gtkWindow_hidden_def ThawPosition_Gtk_def cnf_far_right_def CnfThawInt_def
        int_of_bool_def)

text \<open>
  C2 as stated fails on Win32: on a window that is not visible, with 5000 stored as the
  left edge under the key, \<^verbatim>\<open>FreezePosition\<close> stores 10, the left edge of the window's
  normal position, and the next \<^verbatim>\<open>ThawPosition\<close> reads 10 where it would have read 5000.
\<close>

theorem FreezePosition_Win32_invisible_writes:
  "\<not> IsVisible_Win32 hWindow_hidden \<and>
   cnf_far_right ''w_left'' = Some 5000 \<and>
   snd (FreezePosition_Win32 (WindowImplWin32_new callbacks_registered placement_100)
          hWindow_hidden ''w'' cnf_far_right) ''w_left'' = Some 10 \<and>
   snd (FreezePosition_Win32 (WindowImplWin32_new callbacks_registered placement_100)
          hWindow_hidden ''w'' cnf_far_right) \<noteq> cnf_far_right \<and>
   r_left (ThawPosition_Win32_stored hWindow_hidden ''w'' cnf_far_right) = 5000 \<and>
   r_left (ThawPosition_Win32_stored hWindow_hidden ''w''
       (snd (FreezePosition_Win32 (WindowImplWin32_new callbacks_registered placement_100)
          hWindow_hidden ''w'' cnf_far_right))) = 10"
proof -
  let ?cnf = "snd (FreezePosition_Win32
                     (WindowImplWin32_new callbacks_registered placement_100)
                     hWindow_hidden ''w'' cnf_far_right)"
  have old: "cnf_far_right ''w_left'' = Some 5000"
    by (simp add: cnf_far_right_def)
  have new: "?cnf ''w_left'' = Some 10"
    by (simp add: FreezePosition_Win32_store hWindow_hidden_def placement_100_def)
  have "?cnf \<noteq> cnf_far_right"
  proof
    assume "?cnf = cnf_far_right"
    then have "?cnf ''w_left'' = cnf_far_right ''w_left''" by simp
    with old new show False by simp
  qed
  moreover have "\<not> IsVisible_Win32 hWindow_hidden"
    by (simp add: IsVisible_Win32_def hWindow_hidden_def)
  moreover have "r_left (ThawPosition_Win32_stored hWindow_hidden ''w'' cnf_far_right) = 5000"
    by (simp add: ThawPosition_Win32_stored_def hWindow_hidden_def placement_100_def
          cnf_far_right_def CnfThawInt_def Let_def)
  moreover have "r_left (ThawPosition_Win32_stored hWindow_hidden ''w'' ?cnf) = 10"
    by (simp add: FreezePosition_Win32_store ThawPosition_Win32_stored_def
          hWindow_hidden_def placement_100_def CnfThawInt_def Let_def)
  ultimately show ?thesis using old new by simp
qed

subsection \<open>Setting a menu item without indicator active\<close>

lemma AddItem_SetIndicator_NONE:
  "SetIndicator_Win32 (AddItem_Win32 Map.empty 7) 7 Indicator_NONE
     = Inr [7 \<mapsto> \<lparr>fType = 0, fState = 0\<rparr>]"
  by (simp add: SetIndicator_Win32_def AddItem_Win32_def GetInfo_def SetMenuItemInfoW_def
        MFT_RADIOCHECK_def)

text \<open>
  C4, as amended. On GTK, \<^verbatim>\<open>SetActive\<close> fails the assertion on an item whose indicator was
  set to NONE and on an item whose indicator was never set; after \<^verbatim>\<open>SetIndicator\<close> with a
  check or radio mark it returns; for any item it fails exactly when the item has no
  indicator, and where it returns the item is in the state asked for. On Win32,
  \<^verbatim>\<open>SetActive\<close> on an item of the menu sets or clears the checked state whatever the
  indicator, and fails only when the host does not know the item.
\<close>

theorem SetActive_without_indicator:
  "SetActive_Gtk (SetIndicator_Gtk gtkMenuItem Indicator_NONE) active
     = Inl (AssertionFailed ''Cannot change state of a menu item without indicator'') \<and>
   SetActive_Gtk GtkMenuItem_new active
     = Inl (AssertionFailed ''Cannot change state of a menu item without indicator'') \<and>
   SetActive_Gtk (SetIndicator_Gtk gtkMenuItem CHECK_MARK) active
     = Inr (set_active (SetIndicator_Gtk gtkMenuItem CHECK_MARK) active) \<and>
   SetActive_Gtk (SetIndicator_Gtk gtkMenuItem RADIO_MARK) active
     = Inr (set_active (SetIndicator_Gtk gtkMenuItem RADIO_MARK) active) \<and>
   (case SetActive_Gtk gtkMenuItem active of
      Inl e \<Rightarrow> \<not> has_indicator gtkMenuItem
    | Inr item \<Rightarrow> has_indicator gtkMenuItem \<and> get_active item = active) \<and>
   (case hMenu this of
      None \<Rightarrow> SetActive_Win32 hMenu this active = Inl (FatalError ''GetMenuItemInfoW'')
    | Some mii \<Rightarrow>
        SetActive_Win32 hMenu this active
          = Inr (hMenu(this \<mapsto> mii\<lparr>fState := (if active then fState mii OR MFS_CHECKED
                                               else fState mii AND NOT MFS_CHECKED)\<rparr>)))"
  by (simp add: SetActive_Gtk_def SetIndicator_Gtk_def GtkMenuItem_new_def set_active_def
        SetActive_Win32_def GetInfo_def SetMenuItemInfoW_def Let_def split: option.split)

text \<open>
  C4 as stated fails on Win32: an item added to a menu and given the indicator NONE
  accepts \<^verbatim>\<open>SetActive(true)\<close>; the call returns with the item checked.
\<close>

theorem SetActive_Win32_without_indicator_accepted:
  "SetIndicator_Win32 (AddItem_Win32 Map.empty 7) 7 Indicator_NONE
     = Inr [7 \<mapsto> \<lparr>fType = 0, fState = 0\<rparr>] \<and>
   SetActive_Win32 [7 \<mapsto> \<lparr>fType = 0, fState = 0\<rparr>] 7 True
     = Inr [7 \<mapsto> \<lparr>fType = 0, fState = MFS_CHECKED\<rparr>]"
  by (simp add: AddItem_SetIndicator_NONE SetActive_Win32_def GetInfo_def SetMenuItemInfoW_def
        MFS_CHECKED_def)

subsection \<open>Keyboard events\<close>

lemmas key_consts = VK_SHIFT_def VK_CONTROL_def VK_MENU_def VK_DELETE_def VK_F1_def VK_F12_def
lemmas gdk_consts = GDK_SHIFT_MASK_def GDK_CONTROL_MASK_def GDK_MOD1_MASK_def
  GDK_BUTTON1_MASK_def GDK_BUTTON2_MASK_def GDK_BUTTON3_MASK_def GDK_KEY_F1_def GDK_KEY_F12_def


lemma WndProc_KEY_event_ctrl_alt_A:
  "WndProc_KEY_event layout_A_period keys_ctrl_alt WM_KEYDOWN 0x41
     = Some \<lparr>ke_type = K_PRESS, ke_key = CHARACTER, chr = 0x61,
             ke_shiftDown = False, ke_controlDown = True\<rparr>"
  by (simp add: WndProc_KEY_event_def layout_A_period_def keys_ctrl_alt_def
        KeyboardEvent_zero_def tolower_def key_consts Let_def)







text \<open>
  C5, as amended. On GTK, a key event with any modifier bit other than Shift and Control
  set is dropped: no KeyboardEvent is made, no handler is called, and the event goes on
  to the default handling of the base class. On Win32 a key pressed with Alt held comes
  as \<^verbatim>\<open>WM_SYSKEYDOWN\<close>, for which no KeyboardEvent is made and no callback is called: a
  window without parent passes it to \<^verbatim>\<open>DefWindowProc\<close>, a window with a parent brings the
  parent to the foreground and returns 1. \<^verbatim>\<open>WM_KEYDOWN\<close> and \<^verbatim>\<open>WM_KEYUP\<close> are decoded from
  the states of Shift and Control alone, whatever other keys are down.
\<close>

theorem KeyboardEvent_other_modifiers:
  "(key_state gdk_event AND NOT (GDK_SHIFT_MASK OR GDK_CONTROL_MASK) \<noteq> 0 \<longrightarrow>
      process_key_event_event gdk_keyval_to_lower gdk_keyval_to_unicode type gdk_event
        = None \<and>
      process_key_event gdk_keyval_to_lower gdk_keyval_to_unicode SS_GW_KeyboardEvent
          receiver type gdk_event = (False, []) \<and>
      on_key_event gdk_keyval_to_lower gdk_keyval_to_unicode SS_GW_KeyboardEvent
          receiver type gdk_event = (GLArea_default, [])) \<and>
   WndProc_SYSKEYDOWN False = (DefWindowProc, []) \<and>
   WndProc_SYSKEYDOWN True = (LRESULT 1, [SetForegroundWindow_hParent]) \<and>
   (GetKeyState VK_SHIFT = GetKeyState' VK_SHIFT \<and>
    GetKeyState VK_CONTROL = GetKeyState' VK_CONTROL \<longrightarrow>
      WndProc_KEY MapVirtualKeyW GetKeyState window hParent msg wParam
        = WndProc_KEY MapVirtualKeyW GetKeyState' window hParent msg wParam)"
  by (simp add: process_key_event_event_def process_key_event_def on_key_event_def
        WndProc_SYSKEYDOWN_def WndProc_KEY_def WndProc_KEY_event_def Let_def)

theorem KeyboardEvent_other_modifiers_witness:
  "key_state \<lparr>key_state = GDK_MOD1_MASK, keyval = 0x61\<rparr>
     AND NOT (GDK_SHIFT_MASK OR GDK_CONTROL_MASK) \<noteq> 0 \<and>
   on_key_event keyval_to_lower_latin1 keyval_to_unicode_latin1 always_handled
       callbacks_registered K_PRESS \<lparr>key_state = GDK_MOD1_MASK, keyval = 0x61\<rparr>
     = (GLArea_default, []) \<and>
   keys_ctrl_alt VK_SHIFT = (keys_ctrl_alt(VK_MENU := 0)) VK_SHIFT \<and>
   keys_ctrl_alt VK_CONTROL = (keys_ctrl_alt(VK_MENU := 0)) VK_CONTROL \<and>
   WndProc_KEY layout_A_period keys_ctrl_alt callbacks_registered False WM_KEYDOWN 0x41
     = WndProc_KEY layout_A_period (keys_ctrl_alt(VK_MENU := 0)) callbacks_registered False
         WM_KEYDOWN 0x41"
  using KeyboardEvent_other_modifiers
          [where gdk_event = "\<lparr>key_state = GDK_MOD1_MASK, keyval = 0x61\<rparr>"
             and gdk_keyval_to_lower = keyval_to_lower_latin1
             and gdk_keyval_to_unicode = keyval_to_unicode_latin1 and type = K_PRESS
             and SS_GW_KeyboardEvent = always_handled and receiver = callbacks_registered
             and GetKeyState = keys_ctrl_alt and GetKeyState' = "keys_ctrl_alt(VK_MENU := 0)"
             and MapVirtualKeyW = layout_A_period and window = callbacks_registered
             and hParent = False and msg = WM_KEYDOWN and wParam = "0x41"]
  by (simp add: gdk_consts keys_up_def keys_ctrl_alt_def key_consts)

text \<open>
  C5 as stated fails on Win32: a \<^verbatim>\<open>WM_KEYDOWN\<close> for the key A while Control and Alt are
  down is not dropped; the callback is called with Control+A.
\<close>

theorem WndProc_KEY_alt_not_dropped:
  "keys_ctrl_alt VK_MENU AND 0x8000 \<noteq> 0 \<and>
   WndProc_KEY layout_A_period keys_ctrl_alt callbacks_registered False WM_KEYDOWN 0x41
     = (LRESULT 1,
        [Call_onKeyboardEvent
           \<lparr>ke_type = K_PRESS, ke_key = CHARACTER, chr = 0x61,
            ke_shiftDown = False, ke_controlDown = True\<rparr>])"
  by (simp add: WndProc_KEY_def WndProc_KEY_event_ctrl_alt_A callbacks_registered_def
        keys_ctrl_alt_def)





subsection \<open>The button of a pointer event\<close>

lemmas mk_consts = MK_LBUTTON_def MK_RBUTTON_def MK_MBUTTON_def MK_SHIFT_def MK_CONTROL_def

text \<open>
  C7, as amended. On Win32, a press, double press or release message gives the event the
  button the message names, whatever buttons \<open>wParam\<close> says are held; the held-button
  mask is read for \<^verbatim>\<open>WM_MOUSEMOVE\<close> only, LEFT before MIDDLE before RIGHT; wheel and leave
  events carry no button. On GTK, the explicit button and the held-button mask are read
  together, LEFT before MIDDLE before RIGHT: the event's button is LEFT when the explicit
  button is 1 or button 1 is held, else MIDDLE when the explicit button is 2 or button 2
  is held, else RIGHT when the explicit button is 3 or button 3 is held, else NONE. So
  an explicit button 1 always gives LEFT, an explicit button 2 gives MIDDLE unless
  button 1 is held, an explicit button 3 gives RIGHT unless button 1 or 2 is held, and
  with no explicit button, as for a motion event, the mask decides. The event so built
  is the one the registered \<open>onMouseEvent\<close> is called with.
\<close>

theorem MouseEvent_button:
  "button (fst (WndProc_MOUSE_event other_window_under_mouse msg wParam lParam))
     = (case msg of
          WM_LBUTTONDOWN \<Rightarrow> LEFT | WM_MBUTTONDOWN \<Rightarrow> MIDDLE | WM_RBUTTONDOWN \<Rightarrow> RIGHT
        | WM_LBUTTONDBLCLK \<Rightarrow> LEFT | WM_MBUTTONDBLCLK \<Rightarrow> MIDDLE | WM_RBUTTONDBLCLK \<Rightarrow> RIGHT
        | WM_LBUTTONUP \<Rightarrow> LEFT | WM_MBUTTONUP \<Rightarrow> MIDDLE | WM_RBUTTONUP \<Rightarrow> RIGHT
        | WM_MOUSEMOVE \<Rightarrow>
            if wParam AND MK_LBUTTON \<noteq> 0 then LEFT
            else if wParam AND MK_MBUTTON \<noteq> 0 then MIDDLE
            else if wParam AND MK_RBUTTON \<noteq> 0 then RIGHT
            else NONE
        | WM_MOUSEWHEEL \<Rightarrow> NONE
        | WM_MOUSELEAVE \<Rightarrow> NONE) \<and>
   button (process_pointer_event_event type x y state gdk_button scroll_delta)
     = (if gdk_button = 1 \<or> state AND GDK_BUTTON1_MASK \<noteq> 0 then LEFT
        else if gdk_button = 2 \<or> state AND GDK_BUTTON2_MASK \<noteq> 0 then MIDDLE
        else if gdk_button = 3 \<or> state AND GDK_BUTTON3_MASK \<noteq> 0 then RIGHT
        else NONE) \<and>
   (gdk_button = 1 \<longrightarrow>
      button (process_pointer_event_event type x y state gdk_button scroll_delta) = LEFT) \<and>
   (gdk_button = 2 \<and> state AND GDK_BUTTON1_MASK = 0 \<longrightarrow>
      button (process_pointer_event_event type x y state gdk_button scroll_delta) = MIDDLE) \<and>
   (gdk_button = 3 \<and> state AND GDK_BUTTON1_MASK = 0 \<and> state AND GDK_BUTTON2_MASK = 0 \<longrightarrow>
      button (process_pointer_event_event type x y state gdk_button scroll_delta) = RIGHT) \<and>
   (onMouseEvent receiver = Some cb \<longrightarrow>
      snd (on_button_release_event receiver gdk_event)
        = [Call_onMouseEvent
             (process_pointer_event_event RELEASE (b_x gdk_event) (b_y gdk_event)
                (b_state gdk_event) (b_button gdk_event) 0)] \<and>
      snd (on_motion_notify_event receiver x y state)
        = [Call_onMouseEvent (process_pointer_event_event MOTION x y state 0 0)] \<and>
      snd (WndProc_MOUSE receiver now contextMenuCancelTime other_window_under_mouse
             WM_MOUSEMOVE wParam lParam)
        = [TrackMouseEvent_LEAVE,
           Call_onMouseEvent
             (fst (WndProc_MOUSE_event other_window_under_mouse WM_MOUSEMOVE wParam lParam))])"
proof -
  have w: "button (fst (WndProc_MOUSE_event other_window_under_mouse msg wParam lParam))
     = (case msg of
          WM_LBUTTONDOWN \<Rightarrow> LEFT | WM_MBUTTONDOWN \<Rightarrow> MIDDLE | WM_RBUTTONDOWN \<Rightarrow> RIGHT
        | WM_LBUTTONDBLCLK \<Rightarrow> LEFT | WM_MBUTTONDBLCLK \<Rightarrow> MIDDLE | WM_RBUTTONDBLCLK \<Rightarrow> RIGHT
        | WM_LBUTTONUP \<Rightarrow> LEFT | WM_MBUTTONUP \<Rightarrow> MIDDLE | WM_RBUTTONUP \<Rightarrow> RIGHT
        | WM_MOUSEMOVE \<Rightarrow>
            if wParam AND MK_LBUTTON \<noteq> 0 then LEFT
            else if wParam AND MK_MBUTTON \<noteq> 0 then MIDDLE
            else if wParam AND MK_RBUTTON \<noteq> 0 then RIGHT
            else NONE
        | WM_MOUSEWHEEL \<Rightarrow> NONE
        | WM_MOUSELEAVE \<Rightarrow> NONE)"
    by (cases msg) (simp_all add: WndProc_MOUSE_event_def MouseEvent_zero_def Let_def)
  have g: "button (process_pointer_event_event type x y state gdk_button scroll_delta)
     = (if gdk_button = 1 \<or> state AND GDK_BUTTON1_MASK \<noteq> 0 then LEFT
        else if gdk_button = 2 \<or> state AND GDK_BUTTON2_MASK \<noteq> 0 then MIDDLE
        else if gdk_button = 3 \<or> state AND GDK_BUTTON3_MASK \<noteq> 0 then RIGHT
        else NONE)"
    by (simp add: process_pointer_event_event_def MouseEvent_zero_def Let_def)
  have d: "onMouseEvent receiver = Some cb \<Longrightarrow>
      snd (on_button_release_event receiver gdk_event)
        = [Call_onMouseEvent
             (process_pointer_event_event RELEASE (b_x gdk_event) (b_y gdk_event)
                (b_state gdk_event) (b_button gdk_event) 0)] \<and>
      snd (on_motion_notify_event receiver x y state)
        = [Call_onMouseEvent (process_pointer_event_event MOTION x y state 0 0)] \<and>
      snd (WndProc_MOUSE receiver now contextMenuCancelTime other_window_under_mouse
             WM_MOUSEMOVE wParam lParam)
        = [TrackMouseEvent_LEAVE,
           Call_onMouseEvent
             (fst (WndProc_MOUSE_event other_window_under_mouse WM_MOUSEMOVE wParam lParam))]"
    by (simp add: on_button_release_event_def on_motion_notify_event_def
          process_pointer_event_def WndProc_MOUSE_def is_button_msg_def
          WndProc_MOUSE_event_def Let_def split: bool.split)
  show ?thesis
    unfolding g using w d by simp
qed

theorem MouseEvent_button_witness:
  "(0::32 word) AND GDK_BUTTON1_MASK = 0 \<and>
   button (process_pointer_event_event PRESS 3 4 0 2 0) = MIDDLE \<and>
   button (process_pointer_event_event PRESS 3 4 GDK_BUTTON3_MASK 1 0) = LEFT \<and>
   button (process_pointer_event_event PRESS 3 4 0 3 0) = RIGHT \<and>
   button (fst (WndProc_MOUSE_event False WM_RBUTTONDOWN MK_LBUTTON 0)) = RIGHT \<and>
   button (fst (WndProc_MOUSE_event False WM_MOUSEMOVE (MK_LBUTTON OR MK_RBUTTON) 0)) = LEFT \<and>
   onMouseEvent callbacks_registered = Some never_handled \<and>
   button (process_pointer_event_event MOTION 3 4 (GDK_BUTTON2_MASK OR GDK_BUTTON3_MASK) 0 0)
     = MIDDLE \<and>
   snd (on_button_release_event callbacks_registered
          \<lparr>b_type = GDK_BUTTON_PRESS, b_x = 3, b_y = 4, b_state = GDK_BUTTON3_MASK,
           b_button = 3\<rparr>)
     = [Call_onMouseEvent
          \<lparr>me_type = RELEASE, me_x = 3, me_y = 4, button = RIGHT, me_shiftDown = False,
           me_controlDown = False, scrollDelta = 0\<rparr>]"
  using MouseEvent_button
          [where gdk_button = 2 and state = 0 and type = PRESS and x = 3 and y = 4
             and scroll_delta = 0 and receiver = callbacks_registered and cb = never_handled
             and gdk_event = "\<lparr>b_type = GDK_BUTTON_PRESS, b_x = 3, b_y = 4,
                               b_state = GDK_BUTTON3_MASK, b_button = 3\<rparr>"
             and other_window_under_mouse = False and msg = WM_RBUTTONDOWN
             and wParam = MK_LBUTTON and lParam = 0 and now = 1000
             and contextMenuCancelTime = 0]
        MouseEvent_button
          [where gdk_button = 1 and state = GDK_BUTTON3_MASK and type = PRESS and x = 3
             and y = 4 and scroll_delta = 0 and receiver = callbacks_registered
             and cb = never_handled
             and gdk_event = "\<lparr>b_type = GDK_BUTTON_PRESS, b_x = 3, b_y = 4,
                               b_state = GDK_BUTTON3_MASK, b_button = 3\<rparr>"
             and other_window_under_mouse = False and msg = WM_MOUSEMOVE
             and wParam = "MK_LBUTTON OR MK_RBUTTON" and lParam = 0 and now = 1000
             and contextMenuCancelTime = 0]
  by (simp add: gdk_consts mk_consts callbacks_registered_def
        process_pointer_event_event_def MouseEvent_zero_def Let_def)

text \<open>
  C7 as stated fails on GTK: a press of button 3 while button 1 is held reaches the
  callback as a press of LEFT, not of the explicit button.
\<close>

theorem on_button_press_event_held_button_wins:
  "on_button_press_event callbacks_registered
       \<lparr>b_type = GDK_BUTTON_PRESS, b_x = 3, b_y = 4, b_state = GDK_BUTTON1_MASK,
        b_button = 3\<rparr>
     = (GLArea_default,
        [Call_onMouseEvent
           \<lparr>me_type = PRESS, me_x = 3, me_y = 4, button = LEFT, me_shiftDown = False,
            me_controlDown = False, scrollDelta = 0\<rparr>])"
  by (simp add: on_button_press_event_def process_pointer_event_def
        process_pointer_event_event_def MouseEvent_zero_def callbacks_registered_def
        never_handled_def gdk_consts Let_def)

subsection \<open>The scrollbar position there and back\<close>

lemma UINT_of_double_roundtrip:
  assumes "0 \<le> k" "k < 2 ^ 31"
  shows "sint (UINT_of_double (of_int k / of_int SCROLLBAR_UNIT * of_int SCROLLBAR_UNIT)) = k"
proof -
  have "(of_int k :: rat) / of_int SCROLLBAR_UNIT * of_int SCROLLBAR_UNIT = of_int k"
    by (simp add: SCROLLBAR_UNIT_def)
  then have "UINT_of_double (of_int k / of_int SCROLLBAR_UNIT * of_int SCROLLBAR_UNIT)
               = word_of_int k"
    using assms by (simp add: UINT_of_double_def)
  moreover have "sint (word_of_int k :: 32 word) = k"
    using assms by (simp add: sint_sbintrunc' signed_take_bit_int_eq_self)
  ultimately show ?thesis by simp
qed

lemma SetScrollbarPosition_Win32_units:
  assumes "0 \<le> k" "k < 2 ^ 31"
  shows "SetScrollbarPosition_Win32 window host (of_int k / of_int SCROLLBAR_UNIT)
           = (SetScrollInfo_check (host\<lparr>nPos := k\<rparr>),
              if onScrollbarAdjusted window
              then [Call_onScrollbarAdjusted (of_int k / of_int SCROLLBAR_UNIT)] else [])"
proof -
  have "nPos (SCROLLINFO_zero
          \<lparr>nPos := sint (UINT_of_double
                     (of_int k / of_int SCROLLBAR_UNIT * of_int SCROLLBAR_UNIT))\<rparr>) = k"
    using UINT_of_double_roundtrip[OF assms] by simp
  moreover have "SetScrollInfo_POS host
          (SCROLLINFO_zero
             \<lparr>nPos := sint (UINT_of_double
                        (of_int k / of_int SCROLLBAR_UNIT * of_int SCROLLBAR_UNIT))\<rparr>)
        = SetScrollInfo_check (host\<lparr>nPos := k\<rparr>)"
    using UINT_of_double_roundtrip[OF assms] by (simp add: SetScrollInfo_POS_def)
  ultimately show ?thesis
    unfolding SetScrollbarPosition_Win32_def Let_def by simp
qed

lemma ConfigureScrollbar_Win32_0_10_2:
  "ConfigureScrollbar_Win32 host 0 10 2
     = \<lparr>nMin = 0, nMax = 655360, nPage = 131072,
        nPos = (if nPos host < 0 then 0 else if nPos host > 524289 then 524289 else nPos host)\<rparr>"
  by (simp add: ConfigureScrollbar_Win32_def SetScrollInfo_RANGE_PAGE_def
        SetScrollInfo_check_def SCROLLINFO_zero_def UINT_of_double_def SCROLLBAR_UNIT_def
        Let_def)

text \<open>
  C8, as amended. After \<^verbatim>\<open>ConfigureScrollbar(0,10,2)\<close>, \<^verbatim>\<open>SetScrollbarPosition(5)\<close> calls a
  registered \<open>onScrollbarAdjusted\<close> once with 5.0 and nothing else, on Win32 always and on
  GTK when the position was not 5.0 already (the host announces a change of value only);
  \<^verbatim>\<open>GetScrollbarPosition\<close> then returns 5.0 on GTK, and on Win32 it returns 5.0 when the
  scrollbar has been made visible and 0.0 when not. On Win32 the same holds for every
  position \<open>k / 65536\<close> with \<open>0 \<le> k\<close> and \<open>k \<le> 524289\<close>, the positions from 0 up to
  \<open>10 - 2 + 1 / 65536\<close> that the host's scroll bar holds under this configuration: the
  callback's argument and, on a visible scrollbar, the position read back are
  \<open>k / 65536\<close> exactly.
\<close>

theorem SetScrollbarPosition_roundtrip:
  "snd (SetScrollbarPosition_Win32 window (ConfigureScrollbar_Win32 host 0 10 2) 5)
     = (if onScrollbarAdjusted window then [Call_onScrollbarAdjusted 5] else []) \<and>
   GetScrollbarPosition_Win32 window
       (fst (SetScrollbarPosition_Win32 window (ConfigureScrollbar_Win32 host 0 10 2) 5))
     = (if scrollbarVisible window then 5 else 0) \<and>
   snd (SetScrollbarPosition_Gtk receiver
          (fst (ConfigureScrollbar_Gtk receiver adjustment 0 10 2)) 5)
     = (if onScrollbarAdjusted receiver \<and>
           adj_value (fst (ConfigureScrollbar_Gtk receiver adjustment 0 10 2)) \<noteq> 5
        then [Call_onScrollbarAdjusted 5] else []) \<and>
   GetScrollbarPosition_Gtk
       (fst (SetScrollbarPosition_Gtk receiver
               (fst (ConfigureScrollbar_Gtk receiver adjustment 0 10 2)) 5)) = 5 \<and>
   (0 \<le> k \<and> k \<le> 524289 \<longrightarrow>
      snd (SetScrollbarPosition_Win32 window (ConfigureScrollbar_Win32 host 0 10 2)
             (of_int k / of_int SCROLLBAR_UNIT))
        = (if onScrollbarAdjusted window
           then [Call_onScrollbarAdjusted (of_int k / of_int SCROLLBAR_UNIT)] else []) \<and>
      GetScrollbarPosition_Win32 window
          (fst (SetScrollbarPosition_Win32 window (ConfigureScrollbar_Win32 host 0 10 2)
                  (of_int k / of_int SCROLLBAR_UNIT)))
        = (if scrollbarVisible window then of_int k / of_int SCROLLBAR_UNIT else 0))"
proof -
  have u: "0 \<le> j \<Longrightarrow> j \<le> 524289 \<Longrightarrow>
      snd (SetScrollbarPosition_Win32 window (ConfigureScrollbar_Win32 host 0 10 2)
             (of_int j / of_int SCROLLBAR_UNIT))
        = (if onScrollbarAdjusted window
           then [Call_onScrollbarAdjusted (of_int j / of_int SCROLLBAR_UNIT)] else []) \<and>
      GetScrollbarPosition_Win32 window
          (fst (SetScrollbarPosition_Win32 window (ConfigureScrollbar_Win32 host 0 10 2)
                  (of_int j / of_int SCROLLBAR_UNIT)))
        = (if scrollbarVisible window then of_int j / of_int SCROLLBAR_UNIT else 0)"
    for j :: int
  proof -
    assume j: "0 \<le> j" "j \<le> 524289"
    then have "j < 2 ^ 31" by simp
    from SetScrollbarPosition_Win32_units[OF j(1) this] j show ?thesis
      by (simp add: ConfigureScrollbar_Win32_0_10_2 SetScrollInfo_check_def
            GetScrollbarPosition_Win32_def Let_def)
  qed
  have "(of_int 327680 :: rat) / of_int SCROLLBAR_UNIT = 5"
    by (simp add: SCROLLBAR_UNIT_def)
  with u[of 327680] have w:
    "snd (SetScrollbarPosition_Win32 window (ConfigureScrollbar_Win32 host 0 10 2) 5)
       = (if onScrollbarAdjusted window then [Call_onScrollbarAdjusted 5] else []) \<and>
     GetScrollbarPosition_Win32 window
         (fst (SetScrollbarPosition_Win32 window (ConfigureScrollbar_Win32 host 0 10 2) 5))
       = (if scrollbarVisible window then 5 else 0)"
    by simp
  have g: "snd (SetScrollbarPosition_Gtk receiver
          (fst (ConfigureScrollbar_Gtk receiver adjustment 0 10 2)) 5)
     = (if onScrollbarAdjusted receiver \<and>
           adj_value (fst (ConfigureScrollbar_Gtk receiver adjustment 0 10 2)) \<noteq> 5
        then [Call_onScrollbarAdjusted 5] else []) \<and>
   GetScrollbarPosition_Gtk
       (fst (SetScrollbarPosition_Gtk receiver
               (fst (ConfigureScrollbar_Gtk receiver adjustment 0 10 2)) 5)) = 5"
    by (simp add: ConfigureScrollbar_Gtk_def SetScrollbarPosition_Gtk_def configure_def
          set_value_def on_scrollbar_value_changed_def GetScrollbarPosition_Gtk_def Let_def
          split: bool.split)
  show ?thesis using w g u[of k] by blast
qed

theorem SetScrollbarPosition_roundtrip_witness:
  "(0::int) \<le> 65537 \<and> (65537::int) \<le> 524289 \<and>
   SetScrollbarPosition_Win32
       (SetScrollbarVisible_Win32 (WindowImplWin32_new callbacks_registered placement_100) True)
       (ConfigureScrollbar_Win32 SCROLLINFO_zero 0 10 2) (65537 / 65536)
     = (\<lparr>nMin = 0, nMax = 655360, nPage = 131072, nPos = 65537\<rparr>,
        [Call_onScrollbarAdjusted (65537 / 65536)]) \<and>
   GetScrollbarPosition_Win32
       (SetScrollbarVisible_Win32 (WindowImplWin32_new callbacks_registered placement_100) True)
       \<lparr>nMin = 0, nMax = 655360, nPage = 131072, nPos = 65537\<rparr> = 65537 / 65536 \<and>
   SetScrollbarPosition_Gtk callbacks_registered
       (fst (ConfigureScrollbar_Gtk callbacks_registered Adjustment_new 0 10 2)) 5
     = (\<lparr>adj_value = 5, adj_lower = 0, adj_upper = 10, adj_step_increment = 1,
         adj_page_increment = 4, adj_page_size = 2\<rparr>,
        [Call_onScrollbarAdjusted 5])"
proof -
  have e: "SetScrollbarPosition_Win32
       (SetScrollbarVisible_Win32 (WindowImplWin32_new callbacks_registered placement_100) True)
       (ConfigureScrollbar_Win32 SCROLLINFO_zero 0 10 2) (65537 / 65536)
     = (\<lparr>nMin = 0, nMax = 655360, nPage = 131072, nPos = 65537\<rparr>,
        [Call_onScrollbarAdjusted (65537 / 65536)])"
    by (simp add: SetScrollbarPosition_Win32_def ConfigureScrollbar_Win32_0_10_2
          SetScrollInfo_POS_def SetScrollInfo_check_def SCROLLINFO_zero_def
          UINT_of_double_def SCROLLBAR_UNIT_def SetScrollbarVisible_Win32_def
          WindowImplWin32_new_def Window.extend_def WindowImplWin32.fields_def
          callbacks_registered_def Let_def)
  have g: "SetScrollbarPosition_Gtk callbacks_registered
       (fst (ConfigureScrollbar_Gtk callbacks_registered Adjustment_new 0 10 2)) 5
     = (\<lparr>adj_value = 5, adj_lower = 0, adj_upper = 10, adj_step_increment = 1,
         adj_page_increment = 4, adj_page_size = 2\<rparr>,
        [Call_onScrollbarAdjusted 5])"
    by (simp add: ConfigureScrollbar_Gtk_def SetScrollbarPosition_Gtk_def configure_def
          set_value_def on_scrollbar_value_changed_def Adjustment_new_def
          callbacks_registered_def Let_def)
  show ?thesis
    using SetScrollbarPosition_roundtrip
            [where window = "SetScrollbarVisible_Win32
                               (WindowImplWin32_new callbacks_registered placement_100) True"
               and host = SCROLLINFO_zero and receiver = callbacks_registered
               and adjustment = Adjustment_new and k = 65537]
          e g
    by (simp add: SCROLLBAR_UNIT_def GetScrollbarPosition_Win32_def
          SetScrollbarVisible_Win32_def)
qed

text \<open>
  C8 as stated fails on Win32: on a newly made window, whose scrollbar has not been made
  visible, \<^verbatim>\<open>ConfigureScrollbar(0,10,2)\<close> and \<^verbatim>\<open>SetScrollbarPosition(5)\<close> leave the host's
  scroll bar at 5 * 65536, and \<^verbatim>\<open>GetScrollbarPosition\<close> returns 0.0. And on a visible
  scrollbar a position beyond those the host's scroll bar holds does not come back:
  after \<^verbatim>\<open>SetScrollbarPosition(9)\<close> the callback is told 9.0, the host keeps
  524289, and \<^verbatim>\<open>GetScrollbarPosition\<close> returns 524289 / 65536.
\<close>

theorem GetScrollbarPosition_Win32_after_set_is_zero:
  "SetScrollbarPosition_Win32 (WindowImplWin32_new callbacks_registered placement_100)
       (ConfigureScrollbar_Win32 SCROLLINFO_zero 0 10 2) 5
     = (\<lparr>nMin = 0, nMax = 655360, nPage = 131072, nPos = 327680\<rparr>,
        [Call_onScrollbarAdjusted 5]) \<and>
   GetScrollbarPosition_Win32 (WindowImplWin32_new callbacks_registered placement_100)
       \<lparr>nMin = 0, nMax = 655360, nPage = 131072, nPos = 327680\<rparr> = 0 \<and>
   GetScrollbarPosition_Win32 (WindowImplWin32_new callbacks_registered placement_100)
       \<lparr>nMin = 0, nMax = 655360, nPage = 131072, nPos = 327680\<rparr> \<noteq> 5 \<and>
   SetScrollbarPosition_Win32
       (SetScrollbarVisible_Win32 (WindowImplWin32_new callbacks_registered placement_100) True)
       (ConfigureScrollbar_Win32 SCROLLINFO_zero 0 10 2) 9
     = (\<lparr>nMin = 0, nMax = 655360, nPage = 131072, nPos = 524289\<rparr>,
        [Call_onScrollbarAdjusted 9]) \<and>
   GetScrollbarPosition_Win32
       (SetScrollbarVisible_Win32 (WindowImplWin32_new callbacks_registered placement_100) True)
       \<lparr>nMin = 0, nMax = 655360, nPage = 131072, nPos = 524289\<rparr> = 524289 / 65536 \<and>
   GetScrollbarPosition_Win32
       (SetScrollbarVisible_Win32 (WindowImplWin32_new callbacks_registered placement_100) True)
       \<lparr>nMin = 0, nMax = 655360, nPage = 131072, nPos = 524289\<rparr> \<noteq> 9"
  by (simp add: SetScrollbarPosition_Win32_def ConfigureScrollbar_Win32_0_10_2
        SetScrollInfo_POS_def SetScrollInfo_check_def SCROLLINFO_zero_def
        UINT_of_double_def SCROLLBAR_UNIT_def GetScrollbarPosition_Win32_def
        SetScrollbarVisible_Win32_def
        WindowImplWin32_new_def Window.extend_def WindowImplWin32.fields_def
        callbacks_registered_def Let_def)

subsection \<open>Timers: one pending fire at most\<close>

lemma filter_key_at_most_one:
  "distinct (map f xs) \<Longrightarrow> length (filter (\<lambda>x. f x = a) xs) \<le> Suc 0"
proof (induction xs)
  case Nil
  then show ?case by simp
next
  case (Cons x xs)
  show ?case
  proof (cases "f x = a")
    case True
    from Cons.prems have "f x \<notin> f ` set xs" by simp
    then have "\<forall>y\<in>set xs. f y \<noteq> f x" by (auto simp: image_iff)
    with True have "filter (\<lambda>y. f y = a) xs = []"
      by (simp add: filter_empty_conv)
    with True show ?thesis by simp
  next
    case False
    with Cons show ?thesis by simp
  qed
qed

text \<open>Win32.\<close>

lemma fold_TimerFunc_timers:
  "w_timers (fold (\<lambda>t. TimerFunc (fst t)) ts w)
     = filter (\<lambda>t. fst t \<notin> fst ` set ts) (w_timers w)"
proof (induction ts arbitrary: w)
  case Nil
  then show ?case by simp
next
  case (Cons t ts)
  have "w_timers (TimerFunc (fst t) w) = filter (\<lambda>u. fst u \<noteq> fst t) (w_timers w)"
    by (simp add: TimerFunc_def KillTimer_def Let_def)
  with Cons.IH[of "TimerFunc (fst t) w"] show ?case
    by (simp add: conj_commute)
qed

lemma invar_Win32_step: "invar_Win32 w \<Longrightarrow> invar_Win32 (step_Win32 op w)"
proof (cases op)
  case (Op_WindUp this ms)
  assume "invar_Win32 w"
  then show ?thesis
    by (auto simp: Op_WindUp invar_Win32_def WindUp_Win32_def SetTimer_def distinct_map_filter)
next
  case (Op_Elapse dt)
  assume "invar_Win32 w"
  then show ?thesis
    by (simp add: Op_Elapse invar_Win32_def Elapse_Win32_def Let_def fold_TimerFunc_timers
          distinct_map_filter)
qed

lemma invar_Win32_run: "invar_Win32 w \<Longrightarrow> invar_Win32 (run_Win32 ops w)"
  unfolding run_Win32_def
  by (induction ops arbitrary: w) (simp_all add: invar_Win32_step)

lemma invar_Win32_new: "invar_Win32 (Win32Timers_new registered)"
  by (simp add: invar_Win32_def Win32Timers_new_def)

lemma pending_Win32_at_most_one:
  "invar_Win32 w \<Longrightarrow> length (pending_Win32 this w) \<le> 1"
  using filter_key_at_most_one[of fst "w_timers w" this]
  by (simp add: invar_Win32_def pending_Win32_def)

lemma pending_Win32_WindUp:
  "pending_Win32 this (WindUp_Win32 this ms w) = [w_now w + ms]"
  by (simp add: pending_Win32_def WindUp_Win32_def SetTimer_def filter_empty_conv)

lemma Win32_twice:
  "run_Win32 [Op_WindUp this d1, Op_WindUp this d2, Op_Elapse d2] (Win32Timers_new registered)
     = (Win32Timers_new registered)
         \<lparr>w_now := d2, w_fired := (if registered this then [this] else [])\<rparr>"
  by (simp add: run_Win32_def WindUp_Win32_def SetTimer_def Elapse_Win32_def TimerFunc_def
        KillTimer_def Win32Timers_new_def Let_def)

text \<open>GTK.\<close>

lemma fold_handler:
  "g_sources (fold handler ss w) = filter (\<lambda>s. fst s \<notin> fst ` set ss) (g_sources w) \<and>
   g_timer (fold handler ss w) = g_timer w \<and> g_next (fold handler ss w) = g_next w"
proof (induction ss arbitrary: w)
  case Nil
  then show ?case by simp
next
  case (Cons s ss)
  have "g_sources (handler s w) = filter (\<lambda>u. fst u \<noteq> fst s) (g_sources w) \<and>
        g_timer (handler s w) = g_timer w \<and> g_next (handler s w) = g_next w"
    by (simp add: handler_def Let_def)
  with Cons.IH[of "handler s w"] show ?case
    by (simp add: conj_commute)
qed

lemma invar_Gtk_filter:
  assumes "invar_Gtk w"
    and "g_sources w' = filter P (g_sources w)" "g_timer w' = g_timer w" "g_next w' = g_next w"
  shows "invar_Gtk w'"
  using assms by (auto simp: invar_Gtk_def distinct_map_filter list_all_iff)

lemma invar_Gtk_Elapse: "invar_Gtk w \<Longrightarrow> invar_Gtk (Elapse_Gtk dt w)"
proof -
  assume i: "invar_Gtk w"
  let ?w = "w\<lparr>g_now := g_now w + dt\<rparr>"
  let ?ss = "filter (\<lambda>s. snd (snd s) \<le> g_now ?w) (g_sources ?w)"
  from i have "invar_Gtk ?w" by (simp add: invar_Gtk_def)
  then have "invar_Gtk (fold handler ?ss ?w)"
    using fold_handler[of ?ss ?w] invar_Gtk_filter by blast
  then show ?thesis by (simp add: Elapse_Gtk_def Let_def)
qed

lemma cleared_props:
  assumes "invar_Gtk w"
  shows "invar_Gtk (cleared this w)"
    and "filter (\<lambda>s. fst (snd s) = this) (g_sources (cleared this w)) = []"
    and "g_now (cleared this w) = g_now w"
proof -
  have f: "\<exists>P. g_sources (cleared this w) = filter P (g_sources w)"
    "g_timer (cleared this w) = g_timer w" "g_next (cleared this w) = g_next w"
    "g_now (cleared this w) = g_now w"
    by (auto simp: cleared_def disconnect_def split: option.splits intro: exI[of _ "\<lambda>s. True"])
  with assms show "invar_Gtk (cleared this w)"
    using invar_Gtk_filter by blast
  from f show "g_now (cleared this w) = g_now w" by simp
  show "filter (\<lambda>s. fst (snd s) = this) (g_sources (cleared this w)) = []"
  proof (cases "connection (g_timer w this)")
    case None
    with assms show ?thesis
      by (auto simp: cleared_def connection_empty_def invar_Gtk_def list_all_iff
            filter_empty_conv)
  next
    case (Some i)
    with assms have "\<forall>s\<in>set (g_sources w). fst (snd s) = this \<longrightarrow> fst s = i"
      by (auto simp: invar_Gtk_def list_all_iff)
    with Some show ?thesis
      by (force simp: cleared_def connection_empty_def disconnect_def filter_empty_conv)
  qed
qed

lemma WindUp_Gtk_cleared:
  "WindUp_Gtk this ms w =
     (cleared this w)
       \<lparr>g_sources := g_sources (cleared this w)
                       @ [(g_next (cleared this w), this, g_now (cleared this w) + ms)],
        g_next := Suc (g_next (cleared this w)),
        g_timer := (g_timer (cleared this w))
                     (this := (g_timer (cleared this w) this)
                                \<lparr>connection := Some (g_next (cleared this w))\<rparr>)\<rparr>"
  by (simp add: WindUp_Gtk_def cleared_def signal_timeout_connect_def Let_def)

lemma invar_Gtk_WindUp: "invar_Gtk w \<Longrightarrow> invar_Gtk (WindUp_Gtk this ms w)"
proof -
  assume i: "invar_Gtk w"
  note c = cleared_props[OF i, of this]
  from c(2) have n: "\<forall>s\<in>set (g_sources (cleared this w)). fst (snd s) \<noteq> this"
    by (simp add: filter_empty_conv)
  from c(1) n show ?thesis
    unfolding WindUp_Gtk_cleared
    by (auto simp: invar_Gtk_def list_all_iff less_Suc_eq)
qed

lemma pending_Gtk_WindUp:
  "invar_Gtk w \<Longrightarrow> pending_Gtk this (WindUp_Gtk this ms w) = [g_now w + ms]"
  using cleared_props[of w this]
  by (simp add: WindUp_Gtk_cleared pending_Gtk_def)

lemma invar_Gtk_step: "invar_Gtk w \<Longrightarrow> invar_Gtk (step_Gtk op w)"
  by (cases op) (simp_all add: invar_Gtk_WindUp invar_Gtk_Elapse)

lemma invar_Gtk_run: "invar_Gtk w \<Longrightarrow> invar_Gtk (run_Gtk ops w)"
  unfolding run_Gtk_def
  by (induction ops arbitrary: w) (simp_all add: invar_Gtk_step)

lemma invar_Gtk_new: "invar_Gtk (GtkTimers_new registered)"
  by (simp add: invar_Gtk_def GtkTimers_new_def)

lemma pending_Gtk_at_most_one:
  assumes "invar_Gtk w"
  shows "length (pending_Gtk this w) \<le> 1"
proof -
  let ?mine = "filter (\<lambda>s. fst (snd s) = this) (g_sources w)"
  from assms have "distinct (map fst ?mine)"
    by (simp add: invar_Gtk_def distinct_map_filter)
  moreover from assms have "\<forall>s\<in>set ?mine. Some (fst s) = connection (g_timer w this)"
    by (auto simp: invar_Gtk_def list_all_iff)
  ultimately have "length ?mine \<le> 1"
  proof (cases ?mine)
    case Nil
    then show ?thesis by simp
  next
    case (Cons s ss)
    assume d: "distinct (map fst ?mine)"
      and a: "\<forall>s\<in>set ?mine. Some (fst s) = connection (g_timer w this)"
    have "ss = []"
    proof (cases ss)
      case Nil
      then show ?thesis .
    next
      case (Cons s' ss')
      with \<open>?mine = s # ss\<close> a have "fst s = fst s'"
        by (metis list.set_intros(1) list.set_intros(2) option.inject)
      with \<open>?mine = s # ss\<close> Cons d show ?thesis by simp
    qed
    with Cons show ?thesis by simp
  qed
  then show ?thesis by (simp add: pending_Gtk_def)
qed

lemma Gtk_twice:
  "g_fired (run_Gtk [Op_WindUp this d1, Op_WindUp this d2, Op_Elapse d2]
              (GtkTimers_new registered))
     = (if registered this then [this] else []) \<and>
   g_sources (run_Gtk [Op_WindUp this d1, Op_WindUp this d2, Op_Elapse d2]
                (GtkTimers_new registered)) = []"
  by (simp add: run_Gtk_def WindUp_Gtk_def signal_timeout_connect_def connection_empty_def
        disconnect_def Elapse_Gtk_def handler_def GtkTimers_new_def Let_def)

text \<open>
  C9. In both adapters a timer never has two fires pending: after any sequence of
  \<^verbatim>\<open>WindUp\<close> calls on any timers and of passing time, each timer has at most one pending
  fire, and after a \<^verbatim>\<open>WindUp\<close> the timer has exactly one, due the given number of
  milliseconds from now, whatever was pending for it before. Arming a timer twice in
  succession and letting the second duration pass invokes a registered \<open>onTimeout\<close> of
  that timer once, and leaves the timer with no pending fire.
\<close>

theorem Timer_WindUp_single_fire:
  "length (pending_Gtk this (run_Gtk ops (GtkTimers_new registered))) \<le> 1 \<and>
   length (pending_Win32 this (run_Win32 ops (Win32Timers_new registered))) \<le> 1 \<and>
   pending_Gtk this (WindUp_Gtk this ms (run_Gtk ops (GtkTimers_new registered)))
     = [g_now (run_Gtk ops (GtkTimers_new registered)) + ms] \<and>
   pending_Win32 this (WindUp_Win32 this ms (run_Win32 ops (Win32Timers_new registered)))
     = [w_now (run_Win32 ops (Win32Timers_new registered)) + ms] \<and>
   g_fired (run_Gtk [Op_WindUp this d1, Op_WindUp this d2, Op_Elapse d2]
              (GtkTimers_new registered))
     = (if registered this then [this] else []) \<and>
   pending_Gtk this (run_Gtk [Op_WindUp this d1, Op_WindUp this d2, Op_Elapse d2]
                       (GtkTimers_new registered)) = [] \<and>
   w_fired (run_Win32 [Op_WindUp this d1, Op_WindUp this d2, Op_Elapse d2]
              (Win32Timers_new registered))
     = (if registered this then [this] else []) \<and>
   pending_Win32 this (run_Win32 [Op_WindUp this d1, Op_WindUp this d2, Op_Elapse d2]
                         (Win32Timers_new registered)) = []"
proof -
  have g: "invar_Gtk (run_Gtk ops (GtkTimers_new registered))"
    by (rule invar_Gtk_run) (rule invar_Gtk_new)
  have w: "invar_Win32 (run_Win32 ops (Win32Timers_new registered))"
    by (rule invar_Win32_run) (rule invar_Win32_new)
  have "pending_Win32 this
          (run_Win32 [Op_WindUp this d1, Op_WindUp this d2, Op_Elapse d2]
             (Win32Timers_new registered)) = []"
    unfolding Win32_twice by (simp add: pending_Win32_def Win32Timers_new_def)
  moreover have "w_fired
          (run_Win32 [Op_WindUp this d1, Op_WindUp this d2, Op_Elapse d2]
             (Win32Timers_new registered)) = (if registered this then [this] else [])"
    by (simp add: Win32_twice)
  moreover have "pending_Gtk this
          (run_Gtk [Op_WindUp this d1, Op_WindUp this d2, Op_Elapse d2]
             (GtkTimers_new registered)) = []"
    using Gtk_twice[of this d1 d2 registered] by (simp add: pending_Gtk_def)
  ultimately show ?thesis
    using pending_Gtk_at_most_one[OF g, of this] pending_Win32_at_most_one[OF w, of this]
      pending_Gtk_WindUp[OF g, of this ms] pending_Win32_WindUp Gtk_twice[of this d1 d2 registered]
    by simp
qed

end
